theory Spec2Isabelle
  imports Main "HOL-Library.Sublist" "HOL-Library.Monad_Syntax"
begin

section \<open>Go values, errors and library functions\<close>

text \<open>
  A value of Go's \<^verbatim>\<open>interface{}\<close> as the resources handle it: \<open>VNil\<close> is \<^verbatim>\<open>nil\<close>,
  \<open>VList\<close> is a \<^verbatim>\<open>[]interface{}\<close>, and \<open>VSet xs\<close> is a \<^verbatim>\<open>*schema.Set\<close> whose
  \<^verbatim>\<open>List()\<close> yields \<open>xs\<close>. An \<^verbatim>\<open>error\<close> is represented by the text of its
  \<^verbatim>\<open>Error()\<close> method.
\<close>

datatype val = VNil | VString string | VBool bool | VInt int | VList "val list" | VSet "val list"

type_synonym go_error = string

text \<open>
  Type assertions \<^verbatim>\<open>v.(string)\<close>, \<^verbatim>\<open>v.(bool)\<close>, \<^verbatim>\<open>v.(*schema.Set).List()\<close>: a failed
  assertion panics, which is the result \<open>None\<close>.
\<close>

fun as_string :: "val \<Rightarrow> string option" where
  "as_string (VString s) = Some s"
| "as_string _ = None"

fun as_bool :: "val \<Rightarrow> bool option" where
  "as_bool (VBool b) = Some b"
| "as_bool _ = None"

fun as_int :: "val \<Rightarrow> int option" where
  "as_int (VInt n) = Some n"
| "as_int _ = None"

fun as_Set_List :: "val \<Rightarrow> val list option" where
  "as_Set_List (VSet xs) = Some xs"
| "as_Set_List _ = None"

text \<open>
  \<^verbatim>\<open>strings.Trim(s, cutset)\<close> for a cutset of ASCII bytes (the source only passes
  \<^verbatim>\<open>"/"\<close>): every leading and every trailing byte of the cutset is removed.
  \<^verbatim>\<open>strings.Contains(s, substr)\<close> holds when \<open>substr\<close> occurs contiguously in \<open>s\<close>.
\<close>

definition strings_Trim :: "string \<Rightarrow> string \<Rightarrow> string" where
  "strings_Trim s cutset =
     rev (dropWhile (\<lambda>c. c \<in> set cutset) (rev (dropWhile (\<lambda>c. c \<in> set cutset) s)))"

definition strings_Contains :: "string \<Rightarrow> string \<Rightarrow> bool" where
  "strings_Contains s substr = sublist substr s"

text \<open>The verb \<^verbatim>\<open>%d\<close> of \<^verbatim>\<open>fmt.Sprintf\<close> on an \<^verbatim>\<open>int\<close>: decimal digits, a minus sign first
  when negative.\<close>

definition digit_char :: "nat \<Rightarrow> char" where
  "digit_char n = ''0123456789'' ! n"

function show_nat :: "nat \<Rightarrow> string" where
  "show_nat n = (if n < 10 then [digit_char n] else show_nat (n div 10) @ [digit_char (n mod 10)])"
  by pat_completeness auto
termination
  by (relation "measure id") auto

declare show_nat.simps [simp del]

definition Sprintf_d :: "int \<Rightarrow> string" where
  "Sprintf_d i = (if i < 0 then CHR ''-'' # show_nat (nat (- i)) else show_nat (nat i))"

text \<open>
  Modelled from the spec: \<^verbatim>\<open>util.ToStringArray\<close>, defined in the repository's package
  \<^verbatim>\<open>util\<close>, is the "string-array conversion" codec of the field codec layer. It turns a
  \<^verbatim>\<open>[]interface{}\<close> of strings into a \<^verbatim>\<open>[]string\<close>, asserting every element to be a string.
\<close>

fun ToStringArray :: "val list \<Rightarrow> string list option" where
  "ToStringArray [] = Some []"
| "ToStringArray (v # vs) =
     (case as_string v of None \<Rightarrow> None
      | Some s \<Rightarrow> (case ToStringArray vs of None \<Rightarrow> None | Some ss \<Rightarrow> Some (s # ss)))"

section \<open>The framework's resource data\<close>

text \<open>
  \<^verbatim>\<open>schema.ResourceData\<close> belongs to the orchestration framework. Its interface is
  modelled as the identity of the resource and a store of attribute values, read and
  written through the resource's schema: the type of each field and its declared default.
\<close>

datatype schema_type = TypeString | TypeInt | TypeBool | TypeSet

type_synonym schema = "(string \<times> schema_type \<times> val option) list"

record resource_data =
  ident :: string
  attrs :: "string \<rightharpoonup> val"

fun zero_value :: "schema_type \<Rightarrow> val" where
  "zero_value TypeString = VString []"
| "zero_value TypeInt = VInt 0"
| "zero_value TypeBool = VBool False"
| "zero_value TypeSet = VSet []"

fun is_VString :: "val \<Rightarrow> bool" where
  "is_VString (VString s) = True"
| "is_VString _ = False"

fun conforms :: "schema_type \<Rightarrow> val \<Rightarrow> bool" where
  "conforms TypeString v = (case v of VString s \<Rightarrow> True | _ \<Rightarrow> False)"
| "conforms TypeInt v = (case v of VInt n \<Rightarrow> True | _ \<Rightarrow> False)"
| "conforms TypeBool v = (case v of VBool b \<Rightarrow> True | _ \<Rightarrow> False)"
| "conforms TypeSet v = (case v of VSet xs \<Rightarrow> list_all is_VString xs | _ \<Rightarrow> False)"

text \<open>The framework keeps every stored attribute at the type its schema declares.\<close>

definition wf_data :: "schema \<Rightarrow> resource_data \<Rightarrow> bool" where
  "wf_data sch d =
     list_all (\<lambda>(k, ty, dflt). case attrs d k of None \<Rightarrow> True | Some v \<Rightarrow> conforms ty v) sch"

definition d_Id :: "resource_data \<Rightarrow> string" where
  "d_Id d = ident d"

definition d_SetId :: "resource_data \<Rightarrow> string \<Rightarrow> resource_data" where
  "d_SetId d v = d\<lparr>ident := v\<rparr>"

text \<open>\<^verbatim>\<open>d.Get(k)\<close>: the stored value, else the schema's default, else the zero value of the
  field's type; \<^verbatim>\<open>nil\<close> for a key the schema does not declare.\<close>

definition d_Get :: "schema \<Rightarrow> resource_data \<Rightarrow> string \<Rightarrow> val" where
  "d_Get sch d k =
     (case map_of sch k of
        None \<Rightarrow> VNil
      | Some (ty, dflt) \<Rightarrow>
          (case attrs d k of
             Some v \<Rightarrow> v
           | None \<Rightarrow> (case dflt of Some v \<Rightarrow> v | None \<Rightarrow> zero_value ty)))"

text \<open>\<^verbatim>\<open>d.GetOk(k)\<close>: the value of \<^verbatim>\<open>Get\<close>, and whether the field has been set to a
  value other than the zero value of its type.\<close>

definition d_GetOk :: "schema \<Rightarrow> resource_data \<Rightarrow> string \<Rightarrow> val \<times> bool" where
  "d_GetOk sch d k =
     (let v = d_Get sch d k in
      (v, (case map_of sch k of
             None \<Rightarrow> False
           | Some (ty, dflt) \<Rightarrow> (attrs d k \<noteq> None \<or> dflt \<noteq> None) \<and> v \<noteq> zero_value ty)))"

text \<open>
  \<^verbatim>\<open>d.Set(k, v)\<close> fails for an undeclared key and for a value that does not fit the field's
  type; \<^verbatim>\<open>nil\<close> stores the zero value, and a list of strings fits a set field. The wording
  of the framework's error is not modelled.
\<close>

definition d_Set :: "schema \<Rightarrow> resource_data \<Rightarrow> string \<Rightarrow> val \<Rightarrow> go_error + resource_data" where
  "d_Set sch d k v =
     (case map_of sch k of
        None \<Rightarrow> Inl (''Invalid address to set: '' @ k)
      | Some (ty, dflt) \<Rightarrow>
          (let v' = (case (ty, v) of
                       (_, VNil) \<Rightarrow> zero_value ty
                     | (TypeSet, VList xs) \<Rightarrow> VSet (remdups xs)
                     | _ \<Rightarrow> v)
           in if conforms ty v' then Inr (d\<lparr>attrs := (attrs d)(k \<mapsto> v')\<rparr>)
              else Inl (k @ '': value does not fit the type of the field'')))"

text \<open>A call of \<^verbatim>\<open>d.Set\<close> whose error result is dropped.\<close>

definition d_Set_drop :: "schema \<Rightarrow> resource_data \<Rightarrow> string \<Rightarrow> val \<Rightarrow> resource_data" where
  "d_Set_drop sch d k v = (case d_Set sch d k v of Inl err \<Rightarrow> d | Inr d' \<Rightarrow> d')"

section \<open>External collaborators\<close>

text \<open>
  \<^verbatim>\<open>encoding/json\<close>, used with a \<^verbatim>\<open>map[string]interface{}\<close> as target: \<^verbatim>\<open>json.Unmarshal\<close>
  yields an error or the decoded map, \<^verbatim>\<open>json.Marshal\<close> an error or the JSON text. Both
  are parameters of the model; \<open>'m\<close> is the type of decoded maps.
\<close>

record 'm json_lib =
  json_Unmarshal :: "string \<Rightarrow> go_error + 'm"
  json_Marshal :: "'m \<Rightarrow> go_error + string"

text \<open>
  What the documentation of \<^verbatim>\<open>encoding/json\<close> fixes for the JSON value \<^verbatim>\<open>null\<close>: the text
  \<^verbatim>\<open>null\<close>, with JSON white space (blank, tab, line feed, carriage return) before and after
  it, is valid JSON; \<^verbatim>\<open>json.Unmarshal\<close> sets a map it is given as target to \<^verbatim>\<open>nil\<close> and
  reports no error, and \<^verbatim>\<open>json.Marshal\<close> prints a \<^verbatim>\<open>nil\<close> map as \<^verbatim>\<open>null\<close>. A decoded map is
  therefore \<open>Nil_map\<close> or an object. What the library does with any other input and with
  any other map stays a parameter: \<open>decode_object\<close> and \<open>encode_object\<close>.
\<close>

datatype 'o decoded = Nil_map | Object 'o

definition json_space :: "char \<Rightarrow> bool" where
  "json_space c = (c = CHR '' '' \<or> c = CHR 0x09 \<or> c = CHR 0x0A \<or> c = CHR 0x0D)"

definition json_trim_space :: "string \<Rightarrow> string" where
  "json_trim_space s = rev (dropWhile json_space (rev (dropWhile json_space s)))"

definition encoding_json ::
  "(string \<Rightarrow> go_error + 'o) \<Rightarrow> ('o \<Rightarrow> go_error + string) \<Rightarrow> 'o decoded json_lib" where
  "encoding_json decode_object encode_object =
     \<lparr>json_Unmarshal =
        (\<lambda>s. if json_trim_space s = ''null'' then Inr Nil_map
             else (case decode_object s of Inl err \<Rightarrow> Inl err | Inr obj \<Rightarrow> Inr (Object obj))),
      json_Marshal =
        (\<lambda>m. case m of Nil_map \<Rightarrow> Inr ''null'' | Object obj \<Rightarrow> encode_object obj)\<rparr>"

text \<open>
  The remote store is reached through \<^verbatim>\<open>api.Client\<close>. Every call takes the state \<open>'s\<close> of
  the store and returns its answer with the state after the call. \<^verbatim>\<open>Logical().Read\<close>
  answers with an error, with \<^verbatim>\<open>nil\<close> (\<open>None\<close>) or with a secret; \<^verbatim>\<open>Sys().ListAuth\<close> with
  an error or the mounts by path, listed in the order in which \<^verbatim>\<open>range\<close> visits them.
\<close>

record secret =
  Data :: "string \<rightharpoonup> val"

record AuthConfigInput =
  DefaultLeaseTTL :: string
  MaxLeaseTTL :: string
  AuditNonHMACRequestKeys :: "string list"
  AuditNonHMACResponseKeys :: "string list"
  ListingVisibility :: string
  PassthroughRequestHeaders :: "string list"

record EnableAuthOptions =
  Type :: string
  Description :: string
  Config :: AuthConfigInput
  Local :: bool

record AuthConfigOutput =
  Out_DefaultLeaseTTL :: int
  Out_MaxLeaseTTL :: int
  Out_ListingVisibility :: string

record AuthMount =
  Mount_Type :: string
  Mount_Description :: string
  Mount_Accessor :: string
  Mount_Config :: AuthConfigOutput
  Mount_Local :: bool

record 's client =
  Logical_Write :: "string \<Rightarrow> (string \<rightharpoonup> val) \<Rightarrow> 's \<Rightarrow> go_error option \<times> 's"
  Logical_Read :: "string \<Rightarrow> 's \<Rightarrow> (go_error + secret option) \<times> 's"
  Sys_EnableAuthWithOptions :: "string \<Rightarrow> EnableAuthOptions \<Rightarrow> 's \<Rightarrow> go_error option \<times> 's"
  Sys_ListAuth :: "'s \<Rightarrow> (go_error + (string \<times> AuthMount) list) \<times> 's"

section \<open>GCP auth backend configuration\<close>

definition gcp_schema :: schema where
  "gcp_schema =
     [(''path'', TypeString, Some (VString ''gcp'')),
      (''credentials'', TypeString, None),
      (''iam_alias'', TypeString, None),
      (''gce_alias'', TypeString, None),
      (''iam_metadata'', TypeSet, None),
      (''default_iam_metadata'', TypeBool, Some (VBool True)),
      (''gce_metadata'', TypeSet, None),
      (''default_gce_metadata'', TypeBool, Some (VBool True)),
      (''client_id'', TypeString, None),
      (''private_key_id'', TypeString, None),
      (''project_id'', TypeString, None),
      (''client_email'', TypeString, None)]"

definition ValidateGCPCredentials ::
  "'m json_lib \<Rightarrow> val \<Rightarrow> string \<Rightarrow> (string list \<times> go_error list) option" where
  "ValidateGCPCredentials j configI k =
     do {
       credentials \<leftarrow> as_string configI;
       (case json_Unmarshal j credentials of
          Inl err \<Rightarrow> Some ([], [err])
        | Inr dataMap \<Rightarrow> Some ([], []))
     }"

definition NormalizeGCPCredentials :: "'m json_lib \<Rightarrow> val \<Rightarrow> string option" where
  "NormalizeGCPCredentials j configI =
     do {
       credentials \<leftarrow> as_string configI;
       (case json_Unmarshal j credentials of
          Inl err \<Rightarrow> Some []
        | Inr dataMap \<Rightarrow>
            (case json_Marshal j dataMap of
               Inl err \<Rightarrow> Some credentials
             | Inr ret \<Rightarrow> Some ret))
     }"

definition gcpAuthBackendConfigPath :: "string \<Rightarrow> string" where
  "gcpAuthBackendConfigPath path = ''auth/'' @ strings_Trim path ''/'' @ ''/config''"

text \<open>The statement \<^verbatim>\<open>if v, ok := d.GetOk(k); ok { data[k] = v.(string) }\<close>.\<close>

definition GetOk_into :: "resource_data \<Rightarrow> string \<Rightarrow> (string \<rightharpoonup> val) \<Rightarrow> (string \<rightharpoonup> val) option" where
  "GetOk_into d k data =
     (case d_GetOk gcp_schema d k of
        (v, True) \<Rightarrow> (case as_string v of None \<Rightarrow> None | Some s \<Rightarrow> Some (data(k \<mapsto> VString s)))
      | (v, False) \<Rightarrow> Some data)"

text \<open>The map \<^verbatim>\<open>data\<close> that \<^verbatim>\<open>gcpAuthConfigureWrite\<close> assembles before its remote call.\<close>

definition gcpAuthConfigureWrite_data :: "resource_data \<Rightarrow> (string \<rightharpoonup> val) option" where
  "gcpAuthConfigureWrite_data d =
     do {
       data \<leftarrow> GetOk_into d ''credentials'' Map.empty;
       data \<leftarrow> GetOk_into d ''iam_alias'' data;
       data \<leftarrow> GetOk_into d ''gce_alias'' data;
       iamMetadata \<leftarrow> as_Set_List (d_Get gcp_schema d ''iam_metadata'');
       defaultIamMetadata \<leftarrow> as_bool (d_Get gcp_schema d ''default_iam_metadata'');
       data \<leftarrow> Some (if defaultIamMetadata then data(''iam_metadata'' \<mapsto> VString ''default'')
                     else data(''iam_metadata'' \<mapsto> VList iamMetadata));
       gceMetadata \<leftarrow> as_Set_List (d_Get gcp_schema d ''gce_metadata'');
       defaultGceMetadata \<leftarrow> as_bool (d_Get gcp_schema d ''default_gce_metadata'');
       Some (if defaultGceMetadata then data(''gce_metadata'' \<mapsto> VString ''default'')
             else data(''gce_metadata'' \<mapsto> VList gceMetadata))
     }"

text \<open>The loop of \<^verbatim>\<open>gcpAuthConfigureRead\<close> over the keys of the response; \<open>Quote\<close> is the
  verb \<^verbatim>\<open>%q\<close> of \<^verbatim>\<open>fmt\<close> (\<^verbatim>\<open>strconv.Quote\<close>), a parameter of the model.\<close>

fun gcpAuthConfigureRead_range ::
  "(string \<Rightarrow> string) \<Rightarrow> string \<Rightarrow> secret \<Rightarrow> string list \<Rightarrow> resource_data
     \<Rightarrow> go_error option \<times> resource_data" where
  "gcpAuthConfigureRead_range Quote path resp [] d = (None, d)"
| "gcpAuthConfigureRead_range Quote path resp (k # ks) d =
     (case Data resp k of
        None \<Rightarrow> gcpAuthConfigureRead_range Quote path resp ks d
      | Some v \<Rightarrow>
          (case d_Set gcp_schema d k v of
             Inl err \<Rightarrow>
               (Some (''error setting '' @ k @ '' for GCP Auth config '' @ Quote path @ '': ''
                        @ Quote err), d)
           | Inr d' \<Rightarrow> gcpAuthConfigureRead_range Quote path resp ks d'))"

definition gcpAuthConfigureRead ::
  "(string \<Rightarrow> string) \<Rightarrow> 's client \<Rightarrow> resource_data \<Rightarrow> 's
     \<Rightarrow> go_error option \<times> resource_data \<times> 's" where
  "gcpAuthConfigureRead Quote c d s =
     (let path = gcpAuthBackendConfigPath (d_Id d) in
      case Logical_Read c path s of
        (Inl err, s') \<Rightarrow>
          (Some (''error reading GCP Auth config '' @ Quote path @ '': '' @ err), d, s')
      | (Inr None, s') \<Rightarrow> (None, d_SetId d [], s')
      | (Inr (Some resp), s') \<Rightarrow>
          (case gcpAuthConfigureRead_range Quote path resp
                  [''credentials'', ''iam_alias'', ''gce_alias'', ''iam_metadata'',
                   ''gce_metadata'', ''private_key_id'', ''client_id'', ''project_id'',
                   ''client_email''] d of
             (r, d') \<Rightarrow> (r, d', s')))"

definition gcpAuthConfigureWrite ::
  "(string \<Rightarrow> string) \<Rightarrow> 's client \<Rightarrow> resource_data \<Rightarrow> 's
     \<Rightarrow> (go_error option \<times> resource_data \<times> 's) option" where
  "gcpAuthConfigureWrite Quote c d s =
     do {
       id \<leftarrow> as_string (d_Get gcp_schema d ''path'');
       d \<leftarrow> Some (d_SetId d id);
       path \<leftarrow> Some (gcpAuthBackendConfigPath (d_Id d));
       data \<leftarrow> gcpAuthConfigureWrite_data d;
       (case Logical_Write c path data s of
          (Some err, s') \<Rightarrow>
            Some (Some (''error writing GCP Auth config '' @ Quote path @ '': '' @ err),
                  d_SetId d [], s')
        | (None, s') \<Rightarrow> Some (gcpAuthConfigureRead Quote c d s'))
     }"

definition gcpAuthConfigureExists ::
  "(string \<Rightarrow> string) \<Rightarrow> 's client \<Rightarrow> resource_data \<Rightarrow> 's
     \<Rightarrow> (bool \<times> go_error option) \<times> 's" where
  "gcpAuthConfigureExists Quote c d s =
     (let path = gcpAuthBackendConfigPath (d_Id d) in
      case Logical_Read c path s of
        (Inl err, s') \<Rightarrow>
          ((True, Some (''error checking for existence of GCP Auth config '' @ Quote path
                          @ '': '' @ err)), s')
      | (Inr resp, s') \<Rightarrow> ((resp \<noteq> None, None), s'))"

section \<open>Auth backend\<close>

definition auth_schema :: schema where
  "auth_schema =
     [(''type'', TypeString, None),
      (''path'', TypeString, None),
      (''description'', TypeString, None),
      (''default_lease_ttl_seconds'', TypeInt, None),
      (''max_lease_ttl_seconds'', TypeInt, None),
      (''audit_non_hmac_request_keys'', TypeSet, None),
      (''audit_non_hmac_response_keys'', TypeSet, None),
      (''listing_visibility'', TypeString, None),
      (''passthrough_request_headers'', TypeSet, None),
      (''allowed_response_headers'', TypeSet, None),
      (''local'', TypeBool, None),
      (''seal_wrap'', TypeBool, None),
      (''accessor'', TypeString, None)]"

text \<open>
  The expression \<^verbatim>\<open>fmt.Sprintf("%ds", d.Get(k))\<close>. An integer field always holds an
  \<^verbatim>\<open>int\<close>; for any other value, where \<^verbatim>\<open>Sprintf\<close> would print a diagnostic in place of the
  number, the model yields no result.
\<close>

definition Sprintf_ds :: "val \<Rightarrow> string option" where
  "Sprintf_ds v = do { n \<leftarrow> as_int v; Some (Sprintf_d n @ ''s'') }"

text \<open>The expression \<^verbatim>\<open>util.ToStringArray(d.Get(k).(*schema.Set).List())\<close>.\<close>

definition Get_string_array :: "resource_data \<Rightarrow> string \<Rightarrow> string list option" where
  "Get_string_array d k = do { xs \<leftarrow> as_Set_List (d_Get auth_schema d k); ToStringArray xs }"

text \<open>The value \<^verbatim>\<open>options\<close> that \<^verbatim>\<open>authBackendWrite\<close> builds; the fields of
  \<^verbatim>\<open>api.EnableAuthOptions\<close> that the source does not mention are left out.\<close>

definition authBackendWrite_options :: "resource_data \<Rightarrow> string \<Rightarrow> EnableAuthOptions option" where
  "authBackendWrite_options d mountType =
     do {
       description \<leftarrow> as_string (d_Get auth_schema d ''description'');
       defaultLeaseTTL \<leftarrow> Sprintf_ds (d_Get auth_schema d ''default_lease_ttl_seconds'');
       maxLeaseTTL \<leftarrow> Sprintf_ds (d_Get auth_schema d ''max_lease_ttl_seconds'');
       requestKeys \<leftarrow> Get_string_array d ''audit_non_hmac_request_keys'';
       responseKeys \<leftarrow> Get_string_array d ''audit_non_hmac_response_keys'';
       listingVisibility \<leftarrow> as_string (d_Get auth_schema d ''listing_visibility'');
       requestHeaders \<leftarrow> Get_string_array d ''passthrough_request_headers'';
       local \<leftarrow> as_bool (d_Get auth_schema d ''local'');
       Some \<lparr>Type = mountType,
             Description = description,
             Config = \<lparr>DefaultLeaseTTL = defaultLeaseTTL,
                       MaxLeaseTTL = maxLeaseTTL,
                       AuditNonHMACRequestKeys = requestKeys,
                       AuditNonHMACResponseKeys = responseKeys,
                       ListingVisibility = listingVisibility,
                       PassthroughRequestHeaders = requestHeaders\<rparr>,
             Local = local\<rparr>
     }"

text \<open>The body of the loop of \<^verbatim>\<open>authBackendRead\<close> for the entry that matches.\<close>

definition authBackendRead_found :: "resource_data \<Rightarrow> string \<Rightarrow> AuthMount \<Rightarrow> resource_data" where
  "authBackendRead_found d path auth =
     (let d = d_Set_drop auth_schema d ''type'' (VString (Mount_Type auth));
          d = d_Set_drop auth_schema d ''path'' (VString path);
          d = d_Set_drop auth_schema d ''description'' (VString (Mount_Description auth));
          d = d_Set_drop auth_schema d ''default_lease_ttl_seconds''
                (VInt (Out_DefaultLeaseTTL (Mount_Config auth)));
          d = d_Set_drop auth_schema d ''max_lease_ttl_seconds''
                (VInt (Out_MaxLeaseTTL (Mount_Config auth)));
          d = d_Set_drop auth_schema d ''listing_visibility''
                (VString (Out_ListingVisibility (Mount_Config auth)));
          d = d_Set_drop auth_schema d ''local'' (VBool (Mount_Local auth));
          d = d_Set_drop auth_schema d ''accessor'' (VString (Mount_Accessor auth))
      in d)"

text \<open>The loop \<^verbatim>\<open>for path, auth := range auths\<close>: \<open>Some\<close> is the \<^verbatim>\<open>return nil\<close> inside the
  loop, \<open>None\<close> is falling out of it.\<close>

fun authBackendRead_range ::
  "string \<Rightarrow> resource_data \<Rightarrow> (string \<times> AuthMount) list \<Rightarrow> resource_data option" where
  "authBackendRead_range targetPath d [] = None"
| "authBackendRead_range targetPath d ((path, auth) # auths) =
     (if path = targetPath then Some (authBackendRead_found d path auth)
      else authBackendRead_range targetPath d auths)"

definition authBackendRead ::
  "'s client \<Rightarrow> resource_data \<Rightarrow> 's \<Rightarrow> go_error option \<times> resource_data \<times> 's" where
  "authBackendRead c d s =
     (let targetPath = d_Id d @ ''/'' in
      case Sys_ListAuth c s of
        (Inl err, s') \<Rightarrow> (Some (''error reading from Vault: '' @ err), d, s')
      | (Inr auths, s') \<Rightarrow>
          (case authBackendRead_range targetPath d auths of
             Some d' \<Rightarrow> (None, d', s')
           | None \<Rightarrow> (None, d_SetId d [], s')))"

definition authBackendWrite ::
  "'s client \<Rightarrow> resource_data \<Rightarrow> 's \<Rightarrow> (go_error option \<times> resource_data \<times> 's) option" where
  "authBackendWrite c d s =
     do {
       mountType \<leftarrow> as_string (d_Get auth_schema d ''type'');
       path \<leftarrow> as_string (d_Get auth_schema d ''path'');
       options \<leftarrow> authBackendWrite_options d mountType;
       path \<leftarrow> Some (if path = [] then mountType else path);
       (case Sys_EnableAuthWithOptions c path options s of
          (Some err, s') \<Rightarrow> Some (Some (''error writing to Vault: '' @ err), d, s')
        | (None, s') \<Rightarrow> Some (authBackendRead c (d_SetId d path) s'))
     }"

section \<open>Collaborators for the examples\<close>

text \<open>
  Concrete stand-ins for the parameters of the model, on which the properties below are
  exercised. \<open>Quote_plain\<close> is what \<^verbatim>\<open>%q\<close> prints for a string of printable ASCII characters
  other than the double quote and the backslash. \<open>json_empty_object\<close> is \<open>encoding_json\<close>
  with objects cut down to the empty one, written with or without a blank inside. The three clients keep, as
  the state of the store, the list of the requests made: \<open>client_down\<close> fails every call,
  \<open>client_absent\<close> holds no GCP configuration and only the \<^verbatim>\<open>token/\<close> mount,
  \<open>client_present\<close> holds a GCP configuration and the \<^verbatim>\<open>approle/\<close> mount as well.
\<close>

definition Quote_plain :: "string \<Rightarrow> string" where
  "Quote_plain s = CHR 0x22 # s @ [CHR 0x22]"

definition json_empty_object :: "unit decoded json_lib" where
  "json_empty_object =
     encoding_json
       (\<lambda>s. if json_trim_space s = ''{}'' \<or> json_trim_space s = ''{ }'' then Inr ()
            else Inl ''invalid character'')
       (\<lambda>obj. Inr ''{}'')"

definition token_mount :: AuthMount where
  "token_mount =
     \<lparr>Mount_Type = ''token'', Mount_Description = ''token based credentials'',
      Mount_Accessor = ''auth_token_1'',
      Mount_Config = \<lparr>Out_DefaultLeaseTTL = 0, Out_MaxLeaseTTL = 0, Out_ListingVisibility = []\<rparr>,
      Mount_Local = False\<rparr>"

definition approle_mount :: AuthMount where
  "approle_mount =
     \<lparr>Mount_Type = ''approle'', Mount_Description = ''application roles'',
      Mount_Accessor = ''auth_approle_2'',
      Mount_Config = \<lparr>Out_DefaultLeaseTTL = 3600, Out_MaxLeaseTTL = 7200,
                       Out_ListingVisibility = ''unauth''\<rparr>,
      Mount_Local = False\<rparr>"

definition client_down :: "string list client" where
  "client_down =
     \<lparr>Logical_Write = (\<lambda>path data s. (Some ''connection refused'', s @ [''write '' @ path])),
      Logical_Read = (\<lambda>path s. (Inl ''connection refused'', s @ [''read '' @ path])),
      Sys_EnableAuthWithOptions =
        (\<lambda>path options s. (Some ''connection refused'', s @ [''enable '' @ path])),
      Sys_ListAuth = (\<lambda>s. (Inl ''connection refused'', s @ [''list'']))\<rparr>"

definition client_absent :: "string list client" where
  "client_absent =
     \<lparr>Logical_Write = (\<lambda>path data s. (None, s @ [''write '' @ path])),
      Logical_Read = (\<lambda>path s. (Inr None, s @ [''read '' @ path])),
      Sys_EnableAuthWithOptions = (\<lambda>path options s. (None, s @ [''enable '' @ path])),
      Sys_ListAuth = (\<lambda>s. (Inr [(''token/'', token_mount)], s @ [''list'']))\<rparr>"

definition client_present :: "string list client" where
  "client_present =
     \<lparr>Logical_Write = (\<lambda>path data s. (None, s @ [''write '' @ path])),
      Logical_Read =
        (\<lambda>path s. (Inr (Some \<lparr>Data = [''iam_alias'' \<mapsto> VString ''unique_id'']\<rparr>),
                    s @ [''read '' @ path])),
      Sys_EnableAuthWithOptions = (\<lambda>path options s. (None, s @ [''enable '' @ path])),
      Sys_ListAuth =
        (\<lambda>s. (Inr [(''token/'', token_mount), (''approle/'', approle_mount)], s @ [''list'']))\<rparr>"

section \<open>Typed reads of well-formed resource data\<close>

lemma conforms_cases:
  "conforms TypeString v \<Longrightarrow> \<exists>s. v = VString s"
  "conforms TypeInt v \<Longrightarrow> \<exists>n. v = VInt n"
  "conforms TypeBool v \<Longrightarrow> \<exists>b. v = VBool b"
  "conforms TypeSet v \<Longrightarrow> \<exists>xs. v = VSet xs \<and> list_all is_VString xs"
  by (cases v; simp)+

lemma conforms_zero_value: "conforms ty (zero_value ty)"
  by (cases ty) simp_all

lemma wf_data_attr:
  assumes "wf_data sch d" and "map_of sch k = Some (ty, dflt)" and "attrs d k = Some v"
  shows "conforms ty v"
proof -
  from assms(2) have "(k, ty, dflt) \<in> set sch"
    by (rule map_of_SomeD)
  with assms(1) have "case attrs d k of None \<Rightarrow> True | Some v \<Rightarrow> conforms ty v"
    by (auto simp: wf_data_def list_all_iff)
  with assms(3) show ?thesis by simp
qed

lemma d_Get_conforms:
  assumes "wf_data sch d" and "map_of sch k = Some (ty, dflt)"
    and "\<And>v. dflt = Some v \<Longrightarrow> conforms ty v"
  shows "conforms ty (d_Get sch d k)"
proof (cases "attrs d k")
  case None
  with assms(2,3) show ?thesis
    by (cases dflt) (simp_all add: d_Get_def conforms_zero_value)
next
  case (Some v)
  with assms(1,2) have "conforms ty v" by (rule_tac wf_data_attr)
  with Some assms(2) show ?thesis by (simp add: d_Get_def)
qed

lemma d_Get_typed:
  assumes "wf_data sch d" and "map_of sch k = Some (ty, dflt)"
    and "\<And>v. dflt = Some v \<Longrightarrow> conforms ty v"
  shows "ty = TypeString \<Longrightarrow> \<exists>s. d_Get sch d k = VString s"
    and "ty = TypeInt \<Longrightarrow> \<exists>n. d_Get sch d k = VInt n"
    and "ty = TypeBool \<Longrightarrow> \<exists>b. d_Get sch d k = VBool b"
    and "ty = TypeSet \<Longrightarrow> \<exists>xs. d_Get sch d k = VSet xs \<and> list_all is_VString xs"
  using d_Get_conforms [OF assms] conforms_cases [of "d_Get sch d k"] by blast+

lemma gcp_schema_lookup:
  "map_of gcp_schema ''path'' = Some (TypeString, Some (VString ''gcp''))"
  "map_of gcp_schema ''credentials'' = Some (TypeString, None)"
  "map_of gcp_schema ''iam_alias'' = Some (TypeString, None)"
  "map_of gcp_schema ''gce_alias'' = Some (TypeString, None)"
  "map_of gcp_schema ''iam_metadata'' = Some (TypeSet, None)"
  "map_of gcp_schema ''default_iam_metadata'' = Some (TypeBool, Some (VBool True))"
  "map_of gcp_schema ''gce_metadata'' = Some (TypeSet, None)"
  "map_of gcp_schema ''default_gce_metadata'' = Some (TypeBool, Some (VBool True))"
  by (simp_all add: gcp_schema_def)

lemma auth_schema_lookup:
  "map_of auth_schema ''type'' = Some (TypeString, None)"
  "map_of auth_schema ''path'' = Some (TypeString, None)"
  "map_of auth_schema ''description'' = Some (TypeString, None)"
  "map_of auth_schema ''default_lease_ttl_seconds'' = Some (TypeInt, None)"
  "map_of auth_schema ''max_lease_ttl_seconds'' = Some (TypeInt, None)"
  "map_of auth_schema ''audit_non_hmac_request_keys'' = Some (TypeSet, None)"
  "map_of auth_schema ''audit_non_hmac_response_keys'' = Some (TypeSet, None)"
  "map_of auth_schema ''listing_visibility'' = Some (TypeString, None)"
  "map_of auth_schema ''passthrough_request_headers'' = Some (TypeSet, None)"
  "map_of auth_schema ''local'' = Some (TypeBool, None)"
  "map_of auth_schema ''accessor'' = Some (TypeString, None)"
  by (simp_all add: auth_schema_def)

lemma gcp_Get_typed:
  assumes "wf_data gcp_schema d"
  shows "\<exists>s. d_Get gcp_schema d ''path'' = VString s"
    and "\<exists>s. d_Get gcp_schema d ''credentials'' = VString s"
    and "\<exists>s. d_Get gcp_schema d ''iam_alias'' = VString s"
    and "\<exists>s. d_Get gcp_schema d ''gce_alias'' = VString s"
    and "\<exists>xs. d_Get gcp_schema d ''iam_metadata'' = VSet xs \<and> list_all is_VString xs"
    and "\<exists>b. d_Get gcp_schema d ''default_iam_metadata'' = VBool b"
    and "\<exists>xs. d_Get gcp_schema d ''gce_metadata'' = VSet xs \<and> list_all is_VString xs"
    and "\<exists>b. d_Get gcp_schema d ''default_gce_metadata'' = VBool b"
proof -
  note t = d_Get_typed [OF assms]
  show "\<exists>s. d_Get gcp_schema d ''path'' = VString s"
    by (rule t(1) [OF gcp_schema_lookup(1)]) simp_all
  show "\<exists>s. d_Get gcp_schema d ''credentials'' = VString s"
    by (rule t(1) [OF gcp_schema_lookup(2)]) simp_all
  show "\<exists>s. d_Get gcp_schema d ''iam_alias'' = VString s"
    by (rule t(1) [OF gcp_schema_lookup(3)]) simp_all
  show "\<exists>s. d_Get gcp_schema d ''gce_alias'' = VString s"
    by (rule t(1) [OF gcp_schema_lookup(4)]) simp_all
  show "\<exists>xs. d_Get gcp_schema d ''iam_metadata'' = VSet xs \<and> list_all is_VString xs"
    by (rule t(4) [OF gcp_schema_lookup(5)]) simp_all
  show "\<exists>b. d_Get gcp_schema d ''default_iam_metadata'' = VBool b"
    by (rule t(3) [OF gcp_schema_lookup(6)]) simp_all
  show "\<exists>xs. d_Get gcp_schema d ''gce_metadata'' = VSet xs \<and> list_all is_VString xs"
    by (rule t(4) [OF gcp_schema_lookup(7)]) simp_all
  show "\<exists>b. d_Get gcp_schema d ''default_gce_metadata'' = VBool b"
    by (rule t(3) [OF gcp_schema_lookup(8)]) simp_all
qed

lemma ToStringArray_strings:
  "list_all is_VString xs \<Longrightarrow> \<exists>ss. xs = map VString ss \<and> ToStringArray xs = Some ss"
proof (induction xs)
  case Nil
  then show ?case by simp
next
  case (Cons x xs)
  then obtain ss where ss: "xs = map VString ss" "ToStringArray xs = Some ss"
    by auto
  from Cons.prems obtain s where "x = VString s"
    by (cases x) simp_all
  with ss have "x # xs = map VString (s # ss) \<and> ToStringArray (x # xs) = Some (s # ss)"
    by simp
  then show ?case by (rule exI [of _ "s # ss"])
qed

lemma ToStringArray_map [simp]: "ToStringArray (map VString ss) = Some ss"
  by (induction ss) simp_all

lemma auth_Get_typed:
  assumes "wf_data auth_schema d"
  shows "\<exists>s. d_Get auth_schema d ''type'' = VString s"
    and "\<exists>s. d_Get auth_schema d ''path'' = VString s"
    and "\<exists>s. d_Get auth_schema d ''description'' = VString s"
    and "\<exists>n. d_Get auth_schema d ''default_lease_ttl_seconds'' = VInt n"
    and "\<exists>n. d_Get auth_schema d ''max_lease_ttl_seconds'' = VInt n"
    and "\<exists>ss. d_Get auth_schema d ''audit_non_hmac_request_keys'' = VSet (map VString ss)"
    and "\<exists>ss. d_Get auth_schema d ''audit_non_hmac_response_keys'' = VSet (map VString ss)"
    and "\<exists>s. d_Get auth_schema d ''listing_visibility'' = VString s"
    and "\<exists>ss. d_Get auth_schema d ''passthrough_request_headers'' = VSet (map VString ss)"
    and "\<exists>b. d_Get auth_schema d ''local'' = VBool b"
proof -
  note t = d_Get_typed [OF assms]
  have set: "\<exists>ss. d_Get auth_schema d k = VSet (map VString ss)"
    if "map_of auth_schema k = Some (TypeSet, None)" for k
  proof -
    from t(4) [OF that] obtain xs where "d_Get auth_schema d k = VSet xs" "list_all is_VString xs"
      by auto
    with ToStringArray_strings [of xs] show ?thesis by auto
  qed
  show "\<exists>s. d_Get auth_schema d ''type'' = VString s"
    by (rule t(1) [OF auth_schema_lookup(1)]) simp_all
  show "\<exists>s. d_Get auth_schema d ''path'' = VString s"
    by (rule t(1) [OF auth_schema_lookup(2)]) simp_all
  show "\<exists>s. d_Get auth_schema d ''description'' = VString s"
    by (rule t(1) [OF auth_schema_lookup(3)]) simp_all
  show "\<exists>n. d_Get auth_schema d ''default_lease_ttl_seconds'' = VInt n"
    by (rule t(2) [OF auth_schema_lookup(4)]) simp_all
  show "\<exists>n. d_Get auth_schema d ''max_lease_ttl_seconds'' = VInt n"
    by (rule t(2) [OF auth_schema_lookup(5)]) simp_all
  show "\<exists>ss. d_Get auth_schema d ''audit_non_hmac_request_keys'' = VSet (map VString ss)"
    by (rule set [OF auth_schema_lookup(6)])
  show "\<exists>ss. d_Get auth_schema d ''audit_non_hmac_response_keys'' = VSet (map VString ss)"
    by (rule set [OF auth_schema_lookup(7)])
  show "\<exists>s. d_Get auth_schema d ''listing_visibility'' = VString s"
    by (rule t(1) [OF auth_schema_lookup(8)]) simp_all
  show "\<exists>ss. d_Get auth_schema d ''passthrough_request_headers'' = VSet (map VString ss)"
    by (rule set [OF auth_schema_lookup(9)])
  show "\<exists>b. d_Get auth_schema d ''local'' = VBool b"
    by (rule t(3) [OF auth_schema_lookup(10)]) simp_all
qed

lemma attrs_d_SetId [simp]: "attrs (d_SetId d v) = attrs d"
  by (simp add: d_SetId_def)

lemma d_Get_d_SetId [simp]: "d_Get sch (d_SetId d v) k = d_Get sch d k"
  by (simp add: d_Get_def d_SetId_def split: option.splits)

lemma d_GetOk_d_SetId [simp]: "d_GetOk sch (d_SetId d v) k = d_GetOk sch d k"
  by (simp add: d_GetOk_def Let_def split: option.splits)

section \<open>What the operations compute\<close>

lemma GetOk_into_string:
  assumes "d_Get gcp_schema d k = VString v"
  shows "GetOk_into d k data =
           Some (if snd (d_GetOk gcp_schema d k) then data(k \<mapsto> VString v) else data)"
  using assms by (simp add: GetOk_into_def d_GetOk_def Let_def)

lemma GetOk_unset:
  assumes "k \<in> {''credentials'', ''iam_alias'', ''gce_alias''}" and "attrs d k = None"
  shows "\<not> snd (d_GetOk gcp_schema d k)"
  using assms by (auto simp: d_GetOk_def gcp_schema_lookup)

lemma gcpAuthConfigureWrite_data_d_SetId [simp]:
  "gcpAuthConfigureWrite_data (d_SetId d v) = gcpAuthConfigureWrite_data d"
  by (simp add: gcpAuthConfigureWrite_data_def GetOk_into_def)

lemma gcpAuthConfigureWrite_data_explicit:
  assumes "wf_data gcp_schema d"
  obtains data3 iamMetadata defaultIam gceMetadata defaultGce where
    "d_Get gcp_schema d ''iam_metadata'' = VSet iamMetadata"
    "d_Get gcp_schema d ''default_iam_metadata'' = VBool defaultIam"
    "d_Get gcp_schema d ''gce_metadata'' = VSet gceMetadata"
    "d_Get gcp_schema d ''default_gce_metadata'' = VBool defaultGce"
    "\<And>k. data3 k =
       (if k \<in> {''credentials'', ''iam_alias'', ''gce_alias''} \<and> snd (d_GetOk gcp_schema d k)
        then Some (d_Get gcp_schema d k) else None)"
    "gcpAuthConfigureWrite_data d =
       Some (data3(''iam_metadata'' \<mapsto> (if defaultIam then VString ''default'' else VList iamMetadata),
                   ''gce_metadata'' \<mapsto> (if defaultGce then VString ''default'' else VList gceMetadata)))"
proof -
  from gcp_Get_typed [OF assms] obtain c ia ga iamMetadata defaultIam gceMetadata defaultGce where
    g: "d_Get gcp_schema d ''credentials'' = VString c"
       "d_Get gcp_schema d ''iam_alias'' = VString ia"
       "d_Get gcp_schema d ''gce_alias'' = VString ga"
       "d_Get gcp_schema d ''iam_metadata'' = VSet iamMetadata"
       "d_Get gcp_schema d ''default_iam_metadata'' = VBool defaultIam"
       "d_Get gcp_schema d ''gce_metadata'' = VSet gceMetadata"
       "d_Get gcp_schema d ''default_gce_metadata'' = VBool defaultGce"
    by blast
  define data1 where "data1 =
    (if snd (d_GetOk gcp_schema d ''credentials'') then [''credentials'' \<mapsto> VString c] else Map.empty)"
  define data2 where "data2 =
    (if snd (d_GetOk gcp_schema d ''iam_alias'') then data1(''iam_alias'' \<mapsto> VString ia) else data1)"
  define data3 where "data3 =
    (if snd (d_GetOk gcp_schema d ''gce_alias'') then data2(''gce_alias'' \<mapsto> VString ga) else data2)"
  have keys: "data3 k =
       (if k \<in> {''credentials'', ''iam_alias'', ''gce_alias''} \<and> snd (d_GetOk gcp_schema d k)
        then Some (d_Get gcp_schema d k) else None)" for k
    by (simp add: data3_def data2_def data1_def g)
  have "gcpAuthConfigureWrite_data d =
       Some (data3(''iam_metadata'' \<mapsto> (if defaultIam then VString ''default'' else VList iamMetadata),
                   ''gce_metadata'' \<mapsto> (if defaultGce then VString ''default'' else VList gceMetadata)))"
    by (simp add: gcpAuthConfigureWrite_data_def GetOk_into_string [OF g(1)]
          GetOk_into_string [OF g(2)] GetOk_into_string [OF g(3)] g data1_def data2_def data3_def)
  with g keys show ?thesis
    by (rule_tac that)
qed

lemma authBackendWrite_options_explicit:
  assumes "wf_data auth_schema d"
  shows "\<exists>description defaultLeaseTTL maxLeaseTTL requestKeys responseKeys listingVisibility
            requestHeaders local.
           d_Get auth_schema d ''description'' = VString description
         \<and> d_Get auth_schema d ''default_lease_ttl_seconds'' = VInt defaultLeaseTTL
         \<and> d_Get auth_schema d ''max_lease_ttl_seconds'' = VInt maxLeaseTTL
         \<and> d_Get auth_schema d ''audit_non_hmac_request_keys'' = VSet (map VString requestKeys)
         \<and> d_Get auth_schema d ''audit_non_hmac_response_keys'' = VSet (map VString responseKeys)
         \<and> d_Get auth_schema d ''listing_visibility'' = VString listingVisibility
         \<and> d_Get auth_schema d ''passthrough_request_headers'' = VSet (map VString requestHeaders)
         \<and> d_Get auth_schema d ''local'' = VBool local
         \<and> (\<forall>mountType. authBackendWrite_options d mountType =
               Some \<lparr>Type = mountType,
                     Description = description,
                     Config = \<lparr>DefaultLeaseTTL = Sprintf_d defaultLeaseTTL @ ''s'',
                               MaxLeaseTTL = Sprintf_d maxLeaseTTL @ ''s'',
                               AuditNonHMACRequestKeys = requestKeys,
                               AuditNonHMACResponseKeys = responseKeys,
                               ListingVisibility = listingVisibility,
                               PassthroughRequestHeaders = requestHeaders\<rparr>,
                     Local = local\<rparr>)"
proof -
  from auth_Get_typed [OF assms] obtain description defaultLeaseTTL maxLeaseTTL requestKeys
      responseKeys listingVisibility requestHeaders local where
    g: "d_Get auth_schema d ''description'' = VString description"
       "d_Get auth_schema d ''default_lease_ttl_seconds'' = VInt defaultLeaseTTL"
       "d_Get auth_schema d ''max_lease_ttl_seconds'' = VInt maxLeaseTTL"
       "d_Get auth_schema d ''audit_non_hmac_request_keys'' = VSet (map VString requestKeys)"
       "d_Get auth_schema d ''audit_non_hmac_response_keys'' = VSet (map VString responseKeys)"
       "d_Get auth_schema d ''listing_visibility'' = VString listingVisibility"
       "d_Get auth_schema d ''passthrough_request_headers'' = VSet (map VString requestHeaders)"
       "d_Get auth_schema d ''local'' = VBool local"
    by blast
  show ?thesis
    by (simp add: g authBackendWrite_options_def Sprintf_ds_def Get_string_array_def)
qed

text \<open>
  The remote call of each write operation: the map of \<open>gcpAuthConfigureWrite_data\<close> and the
  options of \<open>authBackendWrite_options\<close> are what the operations hand to the client.
\<close>

lemma gcpAuthConfigureWrite_sends:
  assumes "d_Get gcp_schema d ''path'' = VString p"
    and "gcpAuthConfigureWrite_data d = Some data"
  shows "gcpAuthConfigureWrite Quote c d s =
           Some (case Logical_Write c (gcpAuthBackendConfigPath p) data s of
                   (Some err, s') \<Rightarrow>
                     (Some (''error writing GCP Auth config '' @ Quote (gcpAuthBackendConfigPath p)
                              @ '': '' @ err), d\<lparr>ident := []\<rparr>, s')
                 | (None, s') \<Rightarrow> gcpAuthConfigureRead Quote c (d\<lparr>ident := p\<rparr>) s')"
proof -
  have "d_Id (d_SetId d p) = p" and "d_SetId (d_SetId d p) [] = d\<lparr>ident := []\<rparr>"
    and "d_SetId d p = d\<lparr>ident := p\<rparr>"
    by (simp_all add: d_Id_def d_SetId_def)
  then show ?thesis
    using assms
    by (simp add: gcpAuthConfigureWrite_def gcpAuthConfigureWrite_data_d_SetId [of d p, unfolded d_SetId_def]
          split: prod.splits option.splits)
qed

lemma authBackendWrite_sends:
  assumes "d_Get auth_schema d ''type'' = VString mountType"
    and "d_Get auth_schema d ''path'' = VString path"
    and "authBackendWrite_options d mountType = Some options"
  shows "authBackendWrite c d s =
           Some (case Sys_EnableAuthWithOptions c (if path = [] then mountType else path) options s of
                   (Some err, s') \<Rightarrow> (Some (''error writing to Vault: '' @ err), d, s')
                 | (None, s') \<Rightarrow>
                     authBackendRead c (d\<lparr>ident := if path = [] then mountType else path\<rparr>) s')"
  using assms by (simp add: authBackendWrite_def d_SetId_def split: prod.splits option.splits)

lemma gcpAuthConfigureWrite_failure:
  assumes "d_Get gcp_schema d ''path'' = VString p"
    and "gcpAuthConfigureWrite_data d = Some data"
    and "Logical_Write c (gcpAuthBackendConfigPath p) data s = (Some err, s')"
  shows "gcpAuthConfigureWrite Quote c d s =
           Some (Some (''error writing GCP Auth config '' @ Quote (gcpAuthBackendConfigPath p)
                         @ '': '' @ err), d\<lparr>ident := []\<rparr>, s')"
proof -
  have "d_Id (d_SetId d p) = p"
    by (simp add: d_Id_def d_SetId_def)
  moreover have "d_SetId (d_SetId d p) [] = d\<lparr>ident := []\<rparr>"
    by (simp add: d_SetId_def)
  ultimately show ?thesis
    using assms by (simp add: gcpAuthConfigureWrite_def)
qed

lemma authBackendWrite_failure:
  assumes "d_Get auth_schema d ''type'' = VString mountType"
    and "d_Get auth_schema d ''path'' = VString path"
    and "authBackendWrite_options d mountType = Some options"
    and "Sys_EnableAuthWithOptions c (if path = [] then mountType else path) options s
           = (Some err, s')"
  shows "authBackendWrite c d s = Some (Some (''error writing to Vault: '' @ err), d, s')"
  using assms by (simp add: authBackendWrite_def)

lemma authBackendRead_range_None:
  "t \<notin> fst ` set auths \<Longrightarrow> authBackendRead_range t d auths = None"
  by (induction auths) auto

lemma authBackendRead_range_map_of:
  "authBackendRead_range t d auths =
     map_option (authBackendRead_found d t) (map_of auths t)"
  by (induction auths) auto

lemma authBackendRead_found_attrs:
  "authBackendRead_found d path auth =
     d\<lparr>attrs := (attrs d)
          (''type'' \<mapsto> VString (Mount_Type auth),
           ''path'' \<mapsto> VString path,
           ''description'' \<mapsto> VString (Mount_Description auth),
           ''default_lease_ttl_seconds'' \<mapsto> VInt (Out_DefaultLeaseTTL (Mount_Config auth)),
           ''max_lease_ttl_seconds'' \<mapsto> VInt (Out_MaxLeaseTTL (Mount_Config auth)),
           ''listing_visibility'' \<mapsto> VString (Out_ListingVisibility (Mount_Config auth)),
           ''local'' \<mapsto> VBool (Mount_Local auth),
           ''accessor'' \<mapsto> VString (Mount_Accessor auth))\<rparr>"
  by (simp add: authBackendRead_found_def d_Set_drop_def d_Set_def auth_schema_lookup)

text \<open>
  The credentials codec on the library's answers: the validator rejects what
  \<^verbatim>\<open>json.Unmarshal\<close> rejects, and the normalizer prints the JSON value \<^verbatim>\<open>null\<close> as it is.
\<close>

lemma ValidateGCPCredentials_rejects:
  "json_Unmarshal j x = Inl err \<Longrightarrow> ValidateGCPCredentials j (VString x) k = Some ([], [err])"
  by (simp add: ValidateGCPCredentials_def)

lemma NormalizeGCPCredentials_encoding_json_null:
  "json_trim_space y = ''null'' \<Longrightarrow>
     NormalizeGCPCredentials (encoding_json decode_object encode_object) (VString y) = Some ''null''"
  by (simp add: NormalizeGCPCredentials_def encoding_json_def)

lemma strings_Trim_append_sep:
  "strings_Trim (p @ [c]) [c] = strings_Trim p [c]"
proof (cases "\<forall>x\<in>set p. x = c")
  case True
  then have a: "dropWhile (\<lambda>x. x \<in> set [c]) (p @ [c]) = []"
    by simp
  from True have b: "dropWhile (\<lambda>x. x \<in> set [c]) p = []"
    by simp
  show ?thesis
    unfolding strings_Trim_def a b by simp
next
  case False
  then obtain x where "x \<in> set p" "\<not> x \<in> set [c]"
    by auto
  then have "dropWhile (\<lambda>x. x \<in> set [c]) (p @ [c]) = dropWhile (\<lambda>x. x \<in> set [c]) p @ [c]"
    by (rule dropWhile_append1)
  then show ?thesis
    by (simp add: strings_Trim_def)
qed

lemma strings_Trim_no_trailing:
  "strings_Trim p cutset \<noteq> [] \<Longrightarrow> last (strings_Trim p cutset) \<notin> set cutset"
  unfolding strings_Trim_def
  using hd_dropWhile [of "\<lambda>c. c \<in> set cutset" "rev (dropWhile (\<lambda>c. c \<in> set cutset) p)"]
  by (simp add: last_rev)

lemma rev_dropWhile_rev_prefix:
  "prefix (rev (dropWhile P (rev xs))) xs"
proof -
  have "xs = rev (dropWhile P (rev xs)) @ rev (takeWhile P (rev xs))"
    by (metis rev_append rev_rev_ident takeWhile_dropWhile_id)
  then show ?thesis
    by (metis prefixI)
qed

lemma strings_Trim_no_leading:
  assumes "strings_Trim p cutset \<noteq> []"
  shows "hd (strings_Trim p cutset) \<notin> set cutset"
proof -
  let ?q = "dropWhile (\<lambda>c. c \<in> set cutset) p"
  have pre: "prefix (strings_Trim p cutset) ?q"
    unfolding strings_Trim_def by (rule rev_dropWhile_rev_prefix)
  with assms have "?q \<noteq> []" by (auto simp del: dropWhile_eq_Nil_conv)
  then have "hd ?q \<notin> set cutset"
    by (rule hd_dropWhile)
  moreover from pre assms have "hd (strings_Trim p cutset) = hd ?q"
    by (auto simp: prefix_def)
  ultimately show ?thesis by simp
qed

section \<open>The claims\<close>

text \<open>
  Claim C1. For every desired state whose attributes have the types of the schema, the
  map that \<^verbatim>\<open>gcpAuthConfigureWrite\<close> assembles and hands to \<^verbatim>\<open>Logical().Write\<close> exists, and
  it binds \<^verbatim>\<open>iam_metadata\<close> to the
  string \<^verbatim>\<open>"default"\<close> when \<^verbatim>\<open>default_iam_metadata\<close> is true, whatever the set \<^verbatim>\<open>iam_metadata\<close>
  holds, and to the list of the set's elements when the flag is false; likewise for
  \<^verbatim>\<open>gce_metadata\<close> and \<^verbatim>\<open>default_gce_metadata\<close>.
\<close>

theorem gcpAuthConfigureWrite_default_sentinel:
  assumes "wf_data gcp_schema d"
  shows "\<exists>p data iamMetadata defaultIam gceMetadata defaultGce.
           d_Get gcp_schema d ''path'' = VString p
         \<and> gcpAuthConfigureWrite_data d = Some data
         \<and> (\<forall>Quote c s. gcpAuthConfigureWrite Quote c d s =
               Some (case Logical_Write c (gcpAuthBackendConfigPath p) data s of
                       (Some err, s') \<Rightarrow>
                         (Some (''error writing GCP Auth config ''
                                  @ Quote (gcpAuthBackendConfigPath p) @ '': '' @ err),
                          d\<lparr>ident := []\<rparr>, s')
                     | (None, s') \<Rightarrow> gcpAuthConfigureRead Quote c (d\<lparr>ident := p\<rparr>) s'))
         \<and> d_Get gcp_schema d ''iam_metadata'' = VSet iamMetadata
         \<and> d_Get gcp_schema d ''default_iam_metadata'' = VBool defaultIam
         \<and> d_Get gcp_schema d ''gce_metadata'' = VSet gceMetadata
         \<and> d_Get gcp_schema d ''default_gce_metadata'' = VBool defaultGce
         \<and> data ''iam_metadata'' = Some (if defaultIam then VString ''default'' else VList iamMetadata)
         \<and> data ''gce_metadata'' = Some (if defaultGce then VString ''default'' else VList gceMetadata)"
proof -
  from gcp_Get_typed(1) [OF assms] obtain p where p: "d_Get gcp_schema d ''path'' = VString p"
    by blast
  from assms obtain data3 iamMetadata defaultIam gceMetadata defaultGce where
    g: "d_Get gcp_schema d ''iam_metadata'' = VSet iamMetadata"
       "d_Get gcp_schema d ''default_iam_metadata'' = VBool defaultIam"
       "d_Get gcp_schema d ''gce_metadata'' = VSet gceMetadata"
       "d_Get gcp_schema d ''default_gce_metadata'' = VBool defaultGce"
    and w: "gcpAuthConfigureWrite_data d =
       Some (data3(''iam_metadata'' \<mapsto> (if defaultIam then VString ''default'' else VList iamMetadata),
                   ''gce_metadata'' \<mapsto> (if defaultGce then VString ''default'' else VList gceMetadata)))"
    by (rule gcpAuthConfigureWrite_data_explicit)
  show ?thesis
    by (simp add: w g p gcpAuthConfigureWrite_sends [OF p w])
qed

theorem gcpAuthConfigureWrite_default_sentinel_witness:
  "wf_data gcp_schema
     \<lparr>ident = [], attrs = [''iam_metadata'' \<mapsto> VSet [VString ''foo=bar''],
                           ''default_iam_metadata'' \<mapsto> VBool False,
                           ''gce_metadata'' \<mapsto> VSet [VString ''a=b'']]\<rparr>
   \<and> (\<exists>data. gcpAuthConfigureWrite_data
         \<lparr>ident = [], attrs = [''iam_metadata'' \<mapsto> VSet [VString ''foo=bar''],
                               ''default_iam_metadata'' \<mapsto> VBool False,
                               ''gce_metadata'' \<mapsto> VSet [VString ''a=b'']]\<rparr> = Some data
        \<and> data ''iam_metadata'' = Some (VList [VString ''foo=bar''])
        \<and> data ''gce_metadata'' = Some (VString ''default''))"
proof -
  let ?d = "\<lparr>ident = [], attrs = [''iam_metadata'' \<mapsto> VSet [VString ''foo=bar''],
                           ''default_iam_metadata'' \<mapsto> VBool False,
                           ''gce_metadata'' \<mapsto> VSet [VString ''a=b'']]\<rparr>"
  have wf: "wf_data gcp_schema ?d"
    by (simp add: wf_data_def gcp_schema_def)
  have g: "d_Get gcp_schema ?d ''iam_metadata'' = VSet [VString ''foo=bar'']"
      "d_Get gcp_schema ?d ''default_iam_metadata'' = VBool False"
      "d_Get gcp_schema ?d ''default_gce_metadata'' = VBool True"
    by (simp_all add: d_Get_def gcp_schema_lookup)
  from gcpAuthConfigureWrite_default_sentinel [OF wf] obtain data iamMetadata defaultIam
      gceMetadata defaultGce where
    "gcpAuthConfigureWrite_data ?d = Some data"
    "d_Get gcp_schema ?d ''iam_metadata'' = VSet iamMetadata"
    "d_Get gcp_schema ?d ''default_iam_metadata'' = VBool defaultIam"
    "d_Get gcp_schema ?d ''default_gce_metadata'' = VBool defaultGce"
    "data ''iam_metadata'' = Some (if defaultIam then VString ''default'' else VList iamMetadata)"
    "data ''gce_metadata'' = Some (if defaultGce then VString ''default'' else VList gceMetadata)"
    by (elim exE conjE)
  with g wf show ?thesis
    by simp
qed

text \<open>
  Claim C2, as the code has it. \<^verbatim>\<open>gcpAuthConfigureWrite\<close> copies \<^verbatim>\<open>credentials\<close>, \<^verbatim>\<open>iam_alias\<close>
  and \<^verbatim>\<open>gce_alias\<close> into its map exactly when \<^verbatim>\<open>GetOk\<close> reports them set, so that an unset one
  contributes no key, and always adds \<^verbatim>\<open>iam_metadata\<close> and \<^verbatim>\<open>gce_metadata\<close>.
  \<^verbatim>\<open>authBackendWrite\<close> fills every field of its options from \<^verbatim>\<open>Get\<close>, whether the attribute
  is set or not: the description, the listing visibility and the local flag as they are,
  the two durations formatted with \<^verbatim>\<open>%ds\<close>, the three sets as string arrays.
\<close>

theorem Write_payload_fields:
  "(wf_data gcp_schema d \<longrightarrow>
      (\<exists>data.
          gcpAuthConfigureWrite_data d = Some data
        \<and> dom data = {''iam_metadata'', ''gce_metadata''}
                      \<union> {k \<in> {''credentials'', ''iam_alias'', ''gce_alias''}.
                           snd (d_GetOk gcp_schema d k)}
        \<and> (\<forall>k \<in> {''credentials'', ''iam_alias'', ''gce_alias''}.
              (snd (d_GetOk gcp_schema d k) \<longrightarrow> data k = Some (d_Get gcp_schema d k))
            \<and> (attrs d k = None \<longrightarrow> data k = None))))
   \<and> (wf_data auth_schema d \<longrightarrow>
      (\<exists>description defaultLeaseTTL maxLeaseTTL requestKeys responseKeys listingVisibility
          requestHeaders local.
          d_Get auth_schema d ''description'' = VString description
        \<and> d_Get auth_schema d ''default_lease_ttl_seconds'' = VInt defaultLeaseTTL
        \<and> d_Get auth_schema d ''max_lease_ttl_seconds'' = VInt maxLeaseTTL
        \<and> d_Get auth_schema d ''audit_non_hmac_request_keys'' = VSet (map VString requestKeys)
        \<and> d_Get auth_schema d ''audit_non_hmac_response_keys'' = VSet (map VString responseKeys)
        \<and> d_Get auth_schema d ''listing_visibility'' = VString listingVisibility
        \<and> d_Get auth_schema d ''passthrough_request_headers'' = VSet (map VString requestHeaders)
        \<and> d_Get auth_schema d ''local'' = VBool local
        \<and> (\<forall>mountType. authBackendWrite_options d mountType =
              Some \<lparr>Type = mountType,
                    Description = description,
                    Config = \<lparr>DefaultLeaseTTL = Sprintf_d defaultLeaseTTL @ ''s'',
                              MaxLeaseTTL = Sprintf_d maxLeaseTTL @ ''s'',
                              AuditNonHMACRequestKeys = requestKeys,
                              AuditNonHMACResponseKeys = responseKeys,
                              ListingVisibility = listingVisibility,
                              PassthroughRequestHeaders = requestHeaders\<rparr>,
                    Local = local\<rparr>)))"
proof (intro conjI impI)
  assume wf: "wf_data gcp_schema d"
  let ?K = "{''credentials'', ''iam_alias'', ''gce_alias''}"
  from wf obtain data3 iamMetadata defaultIam gceMetadata defaultGce where
    "d_Get gcp_schema d ''iam_metadata'' = VSet iamMetadata"
    "d_Get gcp_schema d ''default_iam_metadata'' = VBool defaultIam"
    "d_Get gcp_schema d ''gce_metadata'' = VSet gceMetadata"
    "d_Get gcp_schema d ''default_gce_metadata'' = VBool defaultGce"
    and keys: "\<And>k. data3 k =
       (if k \<in> ?K \<and> snd (d_GetOk gcp_schema d k) then Some (d_Get gcp_schema d k) else None)"
    and w: "gcpAuthConfigureWrite_data d =
       Some (data3(''iam_metadata'' \<mapsto> (if defaultIam then VString ''default'' else VList iamMetadata),
                   ''gce_metadata'' \<mapsto> (if defaultGce then VString ''default'' else VList gceMetadata)))"
    by (rule gcpAuthConfigureWrite_data_explicit) blast
  define data where "data =
    data3(''iam_metadata'' \<mapsto> (if defaultIam then VString ''default'' else VList iamMetadata),
          ''gce_metadata'' \<mapsto> (if defaultGce then VString ''default'' else VList gceMetadata))"
  have "dom data3 = {k \<in> ?K. snd (d_GetOk gcp_schema d k)}"
    by (auto simp: dom_def keys)
  then have dom: "dom data = {''iam_metadata'', ''gce_metadata''}
                      \<union> {k \<in> ?K. snd (d_GetOk gcp_schema d k)}"
    by (auto simp: data_def)
  have val: "data k = data3 k" if "k \<in> ?K" for k
    using that by (auto simp: data_def)
  have "\<forall>k \<in> ?K. (snd (d_GetOk gcp_schema d k) \<longrightarrow> data k = Some (d_Get gcp_schema d k))
            \<and> (attrs d k = None \<longrightarrow> data k = None)"
  proof (intro ballI conjI impI)
    fix k assume k: "k \<in> ?K"
    show "data k = Some (d_Get gcp_schema d k)" if "snd (d_GetOk gcp_schema d k)"
      using that k by (simp only: val [OF k] keys) simp
    show "data k = None" if "attrs d k = None"
      using GetOk_unset [OF k that] by (simp only: val [OF k] keys) simp
  qed
  with dom w show "\<exists>data.
          gcpAuthConfigureWrite_data d = Some data
        \<and> dom data = {''iam_metadata'', ''gce_metadata''} \<union> {k \<in> ?K. snd (d_GetOk gcp_schema d k)}
        \<and> (\<forall>k \<in> ?K.
              (snd (d_GetOk gcp_schema d k) \<longrightarrow> data k = Some (d_Get gcp_schema d k))
            \<and> (attrs d k = None \<longrightarrow> data k = None))"
    unfolding data_def [symmetric] by (intro exI [of _ data] conjI)
next
  assume wf: "wf_data auth_schema d"
  then show "\<exists>description defaultLeaseTTL maxLeaseTTL requestKeys responseKeys listingVisibility
          requestHeaders local.
          d_Get auth_schema d ''description'' = VString description
        \<and> d_Get auth_schema d ''default_lease_ttl_seconds'' = VInt defaultLeaseTTL
        \<and> d_Get auth_schema d ''max_lease_ttl_seconds'' = VInt maxLeaseTTL
        \<and> d_Get auth_schema d ''audit_non_hmac_request_keys'' = VSet (map VString requestKeys)
        \<and> d_Get auth_schema d ''audit_non_hmac_response_keys'' = VSet (map VString responseKeys)
        \<and> d_Get auth_schema d ''listing_visibility'' = VString listingVisibility
        \<and> d_Get auth_schema d ''passthrough_request_headers'' = VSet (map VString requestHeaders)
        \<and> d_Get auth_schema d ''local'' = VBool local
        \<and> (\<forall>mountType. authBackendWrite_options d mountType =
              Some \<lparr>Type = mountType,
                    Description = description,
                    Config = \<lparr>DefaultLeaseTTL = Sprintf_d defaultLeaseTTL @ ''s'',
                              MaxLeaseTTL = Sprintf_d maxLeaseTTL @ ''s'',
                              AuditNonHMACRequestKeys = requestKeys,
                              AuditNonHMACResponseKeys = responseKeys,
                              ListingVisibility = listingVisibility,
                              PassthroughRequestHeaders = requestHeaders\<rparr>,
                    Local = local\<rparr>)"
    by (rule authBackendWrite_options_explicit)
qed

theorem Write_payload_fields_witness:
  "wf_data gcp_schema
     \<lparr>ident = [], attrs = [''credentials'' \<mapsto> VString ''{}'', ''iam_alias'' \<mapsto> VString []]\<rparr>
   \<and> gcpAuthConfigureWrite_data
       \<lparr>ident = [], attrs = [''credentials'' \<mapsto> VString ''{}'', ''iam_alias'' \<mapsto> VString []]\<rparr>
     = Some [''credentials'' \<mapsto> VString ''{}'', ''iam_metadata'' \<mapsto> VString ''default'',
             ''gce_metadata'' \<mapsto> VString ''default'']
   \<and> wf_data auth_schema
       \<lparr>ident = [], attrs = [''type'' \<mapsto> VString ''approle'',
                             ''default_lease_ttl_seconds'' \<mapsto> VInt 3600]\<rparr>
   \<and> authBackendWrite_options
       \<lparr>ident = [], attrs = [''type'' \<mapsto> VString ''approle'',
                             ''default_lease_ttl_seconds'' \<mapsto> VInt 3600]\<rparr> ''approle''
     = Some \<lparr>Type = ''approle'', Description = [],
              Config = \<lparr>DefaultLeaseTTL = ''3600s'', MaxLeaseTTL = ''0s'',
                         AuditNonHMACRequestKeys = [], AuditNonHMACResponseKeys = [],
                         ListingVisibility = [], PassthroughRequestHeaders = []\<rparr>,
              Local = False\<rparr>"
proof -
  let ?dg = "\<lparr>ident = [], attrs = [''credentials'' \<mapsto> VString ''{}'', ''iam_alias'' \<mapsto> VString []]\<rparr>"
  let ?da = "\<lparr>ident = [], attrs = [''type'' \<mapsto> VString ''approle'',
                             ''default_lease_ttl_seconds'' \<mapsto> VInt 3600]\<rparr>"
  have wfg: "wf_data gcp_schema ?dg"
    by (simp add: wf_data_def gcp_schema_def)
  have wfa: "wf_data auth_schema ?da"
    by (simp add: wf_data_def auth_schema_def)
  have ok: "snd (d_GetOk gcp_schema ?dg ''credentials'')"
      "\<not> snd (d_GetOk gcp_schema ?dg ''iam_alias'')"
      "\<not> snd (d_GetOk gcp_schema ?dg ''gce_alias'')"
    by (simp_all add: d_GetOk_def d_Get_def gcp_schema_lookup)
  have "{k \<in> {''credentials'', ''iam_alias'', ''gce_alias''}. snd (d_GetOk gcp_schema ?dg k)}
          = {''credentials''}"
    using ok by auto
  with Write_payload_fields [of ?dg, THEN conjunct1, THEN mp, OF wfg]
  have "\<exists>data. gcpAuthConfigureWrite_data ?dg = Some data
          \<and> dom data = {''iam_metadata'', ''gce_metadata''} \<union> {''credentials''}"
    by (elim exE conjE) (intro exI conjI, assumption, simp)
  moreover have "gcpAuthConfigureWrite_data ?dg
     = Some [''credentials'' \<mapsto> VString ''{}'', ''iam_metadata'' \<mapsto> VString ''default'',
             ''gce_metadata'' \<mapsto> VString ''default'']"
    by (simp add: gcpAuthConfigureWrite_data_def GetOk_into_def d_GetOk_def d_Get_def
          gcp_schema_lookup)
  moreover from Write_payload_fields [of ?da, THEN conjunct2, THEN mp, OF wfa]
  have "authBackendWrite_options ?da ''approle''
     = Some \<lparr>Type = ''approle'', Description = [],
              Config = \<lparr>DefaultLeaseTTL = ''3600s'', MaxLeaseTTL = ''0s'',
                         AuditNonHMACRequestKeys = [], AuditNonHMACResponseKeys = [],
                         ListingVisibility = [], PassthroughRequestHeaders = []\<rparr>,
              Local = False\<rparr>"
    by (auto simp add: d_Get_def auth_schema_lookup Sprintf_d_def show_nat.simps digit_char_def)
  ultimately show ?thesis
    using wfg wfa by simp
qed

text \<open>
  The claim as stated fails for \<^verbatim>\<open>authBackendWrite\<close>: with only \<^verbatim>\<open>type\<close> set, the options
  still carry the description, the listing visibility and the local flag, at their zero
  values, and they are the options of a state in which the three are set to these values.
\<close>

theorem authBackendWrite_sends_unset_fields:
  "attrs \<lparr>ident = [], attrs = [''type'' \<mapsto> VString ''approle'']\<rparr> ''description'' = None
   \<and> attrs \<lparr>ident = [], attrs = [''type'' \<mapsto> VString ''approle'']\<rparr> ''listing_visibility'' = None
   \<and> attrs \<lparr>ident = [], attrs = [''type'' \<mapsto> VString ''approle'']\<rparr> ''local'' = None
   \<and> authBackendWrite_options \<lparr>ident = [], attrs = [''type'' \<mapsto> VString ''approle'']\<rparr> ''approle''
     = Some \<lparr>Type = ''approle'', Description = [],
              Config = \<lparr>DefaultLeaseTTL = ''0s'', MaxLeaseTTL = ''0s'',
                         AuditNonHMACRequestKeys = [], AuditNonHMACResponseKeys = [],
                         ListingVisibility = [], PassthroughRequestHeaders = []\<rparr>,
              Local = False\<rparr>
   \<and> authBackendWrite_options
       \<lparr>ident = [], attrs = [''type'' \<mapsto> VString ''approle'', ''description'' \<mapsto> VString [],
                             ''listing_visibility'' \<mapsto> VString [], ''local'' \<mapsto> VBool False]\<rparr>
       ''approle''
     = authBackendWrite_options \<lparr>ident = [], attrs = [''type'' \<mapsto> VString ''approle'']\<rparr> ''approle''"
  by (simp add: authBackendWrite_options_def Sprintf_ds_def Sprintf_d_def show_nat.simps
        digit_char_def Get_string_array_def d_Get_def auth_schema_lookup)

text \<open>
  Claim C3, as the code has it. When the remote write fails, \<^verbatim>\<open>gcpAuthConfigureWrite\<close>
  returns the error \<^verbatim>\<open>error writing GCP Auth config\<close>, the remote path as \<^verbatim>\<open>%q\<close> prints it and
  the cause, and leaves the identity empty and the attributes as they were;
  \<^verbatim>\<open>authBackendWrite\<close> returns \<^verbatim>\<open>error writing to Vault:\<close> and the cause, without a path, and
  leaves the resource data, the identity included, as it was before the call: it sets the
  identity only after the remote call has succeeded. Neither operation panics on a state
  whose attributes have the types of the schema.
\<close>

theorem Write_failure:
  "(wf_data gcp_schema d \<longrightarrow>
      (\<exists>p data.
          d_Get gcp_schema d ''path'' = VString p
        \<and> gcpAuthConfigureWrite_data d = Some data
        \<and> (\<forall>err s'. Logical_Write c (gcpAuthBackendConfigPath p) data s = (Some err, s') \<longrightarrow>
              gcpAuthConfigureWrite Quote c d s =
                Some (Some (''error writing GCP Auth config ''
                              @ Quote (gcpAuthBackendConfigPath p) @ '': '' @ err),
                      d\<lparr>ident := []\<rparr>, s'))))
   \<and> (wf_data auth_schema d \<longrightarrow>
      (\<exists>mountType path options.
          d_Get auth_schema d ''type'' = VString mountType
        \<and> d_Get auth_schema d ''path'' = VString path
        \<and> authBackendWrite_options d mountType = Some options
        \<and> (\<forall>err s'. Sys_EnableAuthWithOptions c (if path = [] then mountType else path) options s
                        = (Some err, s') \<longrightarrow>
              authBackendWrite c d s = Some (Some (''error writing to Vault: '' @ err), d, s'))))"
proof (intro conjI impI)
  assume wf: "wf_data gcp_schema d"
  from gcp_Get_typed(1) [OF wf] obtain p where p: "d_Get gcp_schema d ''path'' = VString p"
    by blast
  from wf obtain data where data: "gcpAuthConfigureWrite_data d = Some data"
    by (rule gcpAuthConfigureWrite_data_explicit)
  have "\<forall>err s'. Logical_Write c (gcpAuthBackendConfigPath p) data s = (Some err, s') \<longrightarrow>
              gcpAuthConfigureWrite Quote c d s =
                Some (Some (''error writing GCP Auth config ''
                              @ Quote (gcpAuthBackendConfigPath p) @ '': '' @ err),
                      d\<lparr>ident := []\<rparr>, s')"
    by (intro allI impI) (rule gcpAuthConfigureWrite_failure [OF p data])
  with p data show "\<exists>p data.
          d_Get gcp_schema d ''path'' = VString p
        \<and> gcpAuthConfigureWrite_data d = Some data
        \<and> (\<forall>err s'. Logical_Write c (gcpAuthBackendConfigPath p) data s = (Some err, s') \<longrightarrow>
              gcpAuthConfigureWrite Quote c d s =
                Some (Some (''error writing GCP Auth config ''
                              @ Quote (gcpAuthBackendConfigPath p) @ '': '' @ err),
                      d\<lparr>ident := []\<rparr>, s'))"
    by (intro exI [of _ p] exI [of _ data] conjI)
next
  assume wf: "wf_data auth_schema d"
  from auth_Get_typed(1,2) [OF wf] obtain mountType path where
    g: "d_Get auth_schema d ''type'' = VString mountType"
       "d_Get auth_schema d ''path'' = VString path"
    by blast
  from authBackendWrite_options_explicit [OF wf] obtain options where
    options: "authBackendWrite_options d mountType = Some options"
    by blast
  have "\<forall>err s'. Sys_EnableAuthWithOptions c (if path = [] then mountType else path) options s
                        = (Some err, s') \<longrightarrow>
              authBackendWrite c d s = Some (Some (''error writing to Vault: '' @ err), d, s')"
    by (intro allI impI) (rule authBackendWrite_failure [OF g options])
  with g options show "\<exists>mountType path options.
          d_Get auth_schema d ''type'' = VString mountType
        \<and> d_Get auth_schema d ''path'' = VString path
        \<and> authBackendWrite_options d mountType = Some options
        \<and> (\<forall>err s'. Sys_EnableAuthWithOptions c (if path = [] then mountType else path) options s
                        = (Some err, s') \<longrightarrow>
              authBackendWrite c d s = Some (Some (''error writing to Vault: '' @ err), d, s'))"
    by (intro exI [of _ mountType] exI [of _ path] exI [of _ options] conjI)
qed

theorem Write_failure_witness:
  "wf_data gcp_schema \<lparr>ident = ''stale'', attrs = [''path'' \<mapsto> VString ''gcp/'']\<rparr>
   \<and> gcpAuthConfigureWrite Quote_plain client_down
       \<lparr>ident = ''stale'', attrs = [''path'' \<mapsto> VString ''gcp/'']\<rparr> []
     = Some (Some (''error writing GCP Auth config '' @ Quote_plain ''auth/gcp/config''
                     @ '': connection refused''),
             \<lparr>ident = [], attrs = [''path'' \<mapsto> VString ''gcp/'']\<rparr>,
             [''write auth/gcp/config''])
   \<and> wf_data auth_schema \<lparr>ident = [], attrs = [''type'' \<mapsto> VString ''approle'']\<rparr>
   \<and> authBackendWrite client_down \<lparr>ident = [], attrs = [''type'' \<mapsto> VString ''approle'']\<rparr> []
     = Some (Some ''error writing to Vault: connection refused'',
             \<lparr>ident = [], attrs = [''type'' \<mapsto> VString ''approle'']\<rparr>,
             [''enable approle''])"
proof -
  let ?dg = "\<lparr>ident = ''stale'', attrs = [''path'' \<mapsto> VString ''gcp/'']\<rparr>"
  let ?da = "\<lparr>ident = [], attrs = [''type'' \<mapsto> VString ''approle'']\<rparr>"
  have wfg: "wf_data gcp_schema ?dg"
    by (simp add: wf_data_def gcp_schema_def)
  have wfa: "wf_data auth_schema ?da"
    by (simp add: wf_data_def auth_schema_def)
  from Write_failure [of ?dg client_down "[]" Quote_plain] wfg obtain p data where
    g: "d_Get gcp_schema ?dg ''path'' = VString p" "gcpAuthConfigureWrite_data ?dg = Some data"
      "\<forall>err s'. Logical_Write client_down (gcpAuthBackendConfigPath p) data [] = (Some err, s') \<longrightarrow>
         gcpAuthConfigureWrite Quote_plain client_down ?dg [] =
           Some (Some (''error writing GCP Auth config ''
                         @ Quote_plain (gcpAuthBackendConfigPath p) @ '': '' @ err),
                 ?dg\<lparr>ident := []\<rparr>, s')"
    by blast
  from g(1) have p: "p = ''gcp/''"
    by (simp add: d_Get_def gcp_schema_lookup)
  have "Logical_Write client_down (gcpAuthBackendConfigPath p) data []
          = (Some ''connection refused'', [''write auth/gcp/config''])"
    by (simp add: p client_down_def gcpAuthBackendConfigPath_def strings_Trim_def)
  with g(3) have gcp: "gcpAuthConfigureWrite Quote_plain client_down ?dg [] =
           Some (Some (''error writing GCP Auth config ''
                         @ Quote_plain (gcpAuthBackendConfigPath p) @ '': connection refused''),
                 ?dg\<lparr>ident := []\<rparr>, [''write auth/gcp/config''])"
    by simp
  from Write_failure [of ?da client_down "[]"] wfa obtain mountType path options where
    a: "d_Get auth_schema ?da ''type'' = VString mountType"
      "d_Get auth_schema ?da ''path'' = VString path"
      "\<forall>err s'. Sys_EnableAuthWithOptions client_down (if path = [] then mountType else path)
                      options [] = (Some err, s') \<longrightarrow>
         authBackendWrite client_down ?da [] =
           Some (Some (''error writing to Vault: '' @ err), ?da, s')"
    by blast
  from a(1,2) have m: "mountType = ''approle''" "path = []"
    by (simp_all add: d_Get_def auth_schema_lookup)
  have "Sys_EnableAuthWithOptions client_down (if path = [] then mountType else path) options []
          = (Some ''connection refused'', [''enable approle''])"
    by (simp add: m client_down_def)
  with a(3) have auth: "authBackendWrite client_down ?da [] =
           Some (Some (''error writing to Vault: '' @ ''connection refused''), ?da,
                 [''enable approle''])"
    by simp
  from wfg wfa gcp auth show ?thesis
    by (simp add: p gcpAuthBackendConfigPath_def strings_Trim_def)
qed

text \<open>
  The claim as stated fails for \<^verbatim>\<open>authBackendWrite\<close>: the error of a failed write to the
  mount \<^verbatim>\<open>approle\<close> does not contain the path.
\<close>

theorem authBackendWrite_failure_omits_path:
  "authBackendWrite client_down
       \<lparr>ident = [], attrs = [''type'' \<mapsto> VString ''approle'', ''path'' \<mapsto> VString ''approle'']\<rparr> []
     = Some (Some ''error writing to Vault: connection refused'',
             \<lparr>ident = [], attrs = [''type'' \<mapsto> VString ''approle'', ''path'' \<mapsto> VString ''approle'']\<rparr>,
             [''enable approle''])
   \<and> \<not> strings_Contains ''error writing to Vault: connection refused'' ''approle''"
  by (simp add: authBackendWrite_def authBackendWrite_options_def Sprintf_ds_def
        Get_string_array_def d_Get_def auth_schema_lookup client_down_def
        strings_Contains_def sublist_code prefix_code)

text \<open>
  Claim C4. When \<^verbatim>\<open>Logical().Read\<close> answers \<^verbatim>\<open>nil\<close> without an error,
  \<^verbatim>\<open>gcpAuthConfigureRead\<close> sets the identity to the empty string and returns no error; when
  the listing of \<^verbatim>\<open>Sys().ListAuth\<close> has no entry for the identity followed by a separator,
  \<^verbatim>\<open>authBackendRead\<close> does the same. The attributes stay as they were.
\<close>

theorem Read_absent_clears_identity:
  "(Logical_Read c (gcpAuthBackendConfigPath (d_Id d)) s = (Inr None, s')
      \<longrightarrow> gcpAuthConfigureRead Quote c d s = (None, d\<lparr>ident := []\<rparr>, s'))
   \<and> (Sys_ListAuth c s = (Inr auths, s'') \<and> d_Id d @ ''/'' \<notin> fst ` set auths
      \<longrightarrow> authBackendRead c d s = (None, d\<lparr>ident := []\<rparr>, s''))"
  by (simp add: gcpAuthConfigureRead_def authBackendRead_def authBackendRead_range_None
        d_SetId_def Let_def)

theorem Read_absent_clears_identity_witness:
  "Logical_Read client_absent (gcpAuthBackendConfigPath (d_Id \<lparr>ident = ''gcp'', attrs = Map.empty\<rparr>)) []
     = (Inr None, [''read auth/gcp/config''])
   \<and> gcpAuthConfigureRead Quote_plain client_absent \<lparr>ident = ''gcp'', attrs = Map.empty\<rparr> []
     = (None, \<lparr>ident = [], attrs = Map.empty\<rparr>, [''read auth/gcp/config''])
   \<and> Sys_ListAuth client_absent [] = (Inr [(''token/'', token_mount)], [''list''])
   \<and> authBackendRead client_absent \<lparr>ident = ''approle'', attrs = Map.empty\<rparr> []
     = (None, \<lparr>ident = [], attrs = Map.empty\<rparr>, [''list''])"
  using Read_absent_clears_identity [of client_absent "\<lparr>ident = ''gcp'', attrs = Map.empty\<rparr>" "[]"
      "[''read auth/gcp/config'']" Quote_plain]
    Read_absent_clears_identity [of client_absent "\<lparr>ident = ''approle'', attrs = Map.empty\<rparr>" "[]"
      _ _ "[(''token/'', token_mount)]" "[''list'']"]
  by (simp add: client_absent_def gcpAuthBackendConfigPath_def strings_Trim_def d_Id_def)

text \<open>
  Claim C5, as the code has it. When the remote read fails, \<^verbatim>\<open>gcpAuthConfigureRead\<close>
  returns the error \<^verbatim>\<open>error reading GCP Auth config\<close>, the remote path as \<^verbatim>\<open>%q\<close> prints it and
  the cause; \<^verbatim>\<open>authBackendRead\<close> returns \<^verbatim>\<open>error reading from Vault:\<close> and the cause, without
  a path. Both leave the resource data exactly as it was.
\<close>

theorem Read_failure_keeps_state:
  "(Logical_Read c (gcpAuthBackendConfigPath (d_Id d)) s = (Inl err, s')
      \<longrightarrow> gcpAuthConfigureRead Quote c d s =
            (Some (''error reading GCP Auth config '' @ Quote (gcpAuthBackendConfigPath (d_Id d))
                     @ '': '' @ err), d, s'))
   \<and> (Sys_ListAuth c s = (Inl err, s'')
      \<longrightarrow> authBackendRead c d s = (Some (''error reading from Vault: '' @ err), d, s''))"
  by (simp add: gcpAuthConfigureRead_def authBackendRead_def Let_def)

theorem Read_failure_keeps_state_witness:
  "Logical_Read client_down (gcpAuthBackendConfigPath (d_Id \<lparr>ident = ''gcp'', attrs = Map.empty\<rparr>)) []
     = (Inl ''connection refused'', [''read auth/gcp/config''])
   \<and> gcpAuthConfigureRead Quote_plain client_down \<lparr>ident = ''gcp'', attrs = Map.empty\<rparr> []
     = (Some (''error reading GCP Auth config '' @ Quote_plain ''auth/gcp/config''
                @ '': connection refused''),
        \<lparr>ident = ''gcp'', attrs = Map.empty\<rparr>, [''read auth/gcp/config''])
   \<and> Sys_ListAuth client_down [] = (Inl ''connection refused'', [''list''])
   \<and> authBackendRead client_down \<lparr>ident = ''approle'', attrs = Map.empty\<rparr> []
     = (Some ''error reading from Vault: connection refused'',
        \<lparr>ident = ''approle'', attrs = Map.empty\<rparr>, [''list''])"
  using Read_failure_keeps_state [of client_down "\<lparr>ident = ''gcp'', attrs = Map.empty\<rparr>" "[]"
      "''connection refused''" "[''read auth/gcp/config'']" Quote_plain]
    Read_failure_keeps_state [of client_down "\<lparr>ident = ''approle'', attrs = Map.empty\<rparr>" "[]"
      "''connection refused''" _ _ "[''list'']"]
  by (simp add: client_down_def gcpAuthBackendConfigPath_def strings_Trim_def d_Id_def)

text \<open>
  The claim as stated fails for \<^verbatim>\<open>authBackendRead\<close>: the error of a failed listing, read
  for the identity \<^verbatim>\<open>approle\<close>, does not contain the path.
\<close>

theorem authBackendRead_failure_omits_path:
  "authBackendRead client_down \<lparr>ident = ''approle'', attrs = Map.empty\<rparr> []
     = (Some ''error reading from Vault: connection refused'',
        \<lparr>ident = ''approle'', attrs = Map.empty\<rparr>, [''list''])
   \<and> \<not> strings_Contains ''error reading from Vault: connection refused'' ''approle''"
  by (simp add: authBackendRead_def client_down_def d_Id_def strings_Contains_def sublist_code
        prefix_code)

text \<open>
  Claim C6. When the remote read succeeds, \<^verbatim>\<open>gcpAuthConfigureExists\<close> returns whether the
  response is not \<^verbatim>\<open>nil\<close>, and no error; when the remote read fails, it returns \<^verbatim>\<open>true\<close>
  together with the error, never \<^verbatim>\<open>false\<close>.
\<close>

theorem gcpAuthConfigureExists_judgment:
  "(Logical_Read c (gcpAuthBackendConfigPath (d_Id d)) s = (Inr resp, s')
      \<longrightarrow> gcpAuthConfigureExists Quote c d s = ((resp \<noteq> None, None), s'))
   \<and> (Logical_Read c (gcpAuthBackendConfigPath (d_Id d)) s = (Inl err, s')
      \<longrightarrow> gcpAuthConfigureExists Quote c d s =
            ((True, Some (''error checking for existence of GCP Auth config ''
                            @ Quote (gcpAuthBackendConfigPath (d_Id d)) @ '': '' @ err)), s'))"
  by (simp add: gcpAuthConfigureExists_def Let_def)

theorem gcpAuthConfigureExists_judgment_witness:
  "gcpAuthConfigureExists Quote_plain client_present \<lparr>ident = ''gcp'', attrs = Map.empty\<rparr> []
     = ((True, None), [''read auth/gcp/config''])
   \<and> gcpAuthConfigureExists Quote_plain client_absent \<lparr>ident = ''gcp'', attrs = Map.empty\<rparr> []
     = ((False, None), [''read auth/gcp/config''])
   \<and> gcpAuthConfigureExists Quote_plain client_down \<lparr>ident = ''gcp'', attrs = Map.empty\<rparr> []
     = ((True, Some (''error checking for existence of GCP Auth config ''
                       @ Quote_plain ''auth/gcp/config'' @ '': connection refused'')),
        [''read auth/gcp/config''])"
  using gcpAuthConfigureExists_judgment [of client_present "\<lparr>ident = ''gcp'', attrs = Map.empty\<rparr>" "[]"
      "Some \<lparr>Data = [''iam_alias'' \<mapsto> VString ''unique_id'']\<rparr>" "[''read auth/gcp/config'']" Quote_plain]
    gcpAuthConfigureExists_judgment [of client_absent "\<lparr>ident = ''gcp'', attrs = Map.empty\<rparr>" "[]"
      None "[''read auth/gcp/config'']" Quote_plain]
    gcpAuthConfigureExists_judgment [of client_down "\<lparr>ident = ''gcp'', attrs = Map.empty\<rparr>" "[]"
      _ "[''read auth/gcp/config'']" Quote_plain "''connection refused''"]
  by (simp add: client_present_def client_absent_def client_down_def gcpAuthBackendConfigPath_def
        strings_Trim_def d_Id_def)

text \<open>
  Claim C7. For every path \<open>p\<close>, \<^verbatim>\<open>gcpAuthBackendConfigPath\<close> gives the same result for
  \<open>p\<close> and for \<open>p\<close> followed by a separator; the result is \<^verbatim>\<open>auth/\<close>, the trimmed path and
  \<^verbatim>\<open>/config\<close>, and the trimmed path neither starts nor ends with a separator.
\<close>

theorem gcpAuthBackendConfigPath_normalizes:
  "gcpAuthBackendConfigPath (p @ ''/'') = gcpAuthBackendConfigPath p
   \<and> gcpAuthBackendConfigPath p = ''auth/'' @ strings_Trim p ''/'' @ ''/config''
   \<and> \<not> prefix ''/'' (strings_Trim p ''/'')
   \<and> \<not> suffix ''/'' (strings_Trim p ''/'')"
proof -
  have "\<not> prefix ''/'' (strings_Trim p ''/'')"
    using strings_Trim_no_leading [of p "''/''"] by (auto simp: prefix_def)
  moreover have "\<not> suffix ''/'' (strings_Trim p ''/'')"
    using strings_Trim_no_trailing [of p "''/''"] by (auto simp: suffix_def)
  ultimately show ?thesis
    by (simp add: gcpAuthBackendConfigPath_def strings_Trim_append_sep)
qed

theorem gcpAuthBackendConfigPath_normalizes_witness:
  "gcpAuthBackendConfigPath (''/gcp/'' @ ''/'') = gcpAuthBackendConfigPath ''/gcp/''
   \<and> gcpAuthBackendConfigPath ''/gcp/'' = ''auth/gcp/config''"
  using gcpAuthBackendConfigPath_normalizes [of "''/gcp/''"]
  by (simp add: strings_Trim_def)

text \<open>
  Claim C9. When \<^verbatim>\<open>Sys().ListAuth\<close> succeeds, \<^verbatim>\<open>authBackendRead\<close> looks for the entry whose
  key is the identity followed by a separator. If there is one, it stores the entry's
  type, the key as path, the description, the two lease durations, the listing
  visibility, the local flag and the accessor, keeps the identity and returns no error;
  if there is none, it sets the identity to the empty string and returns no error.
\<close>

theorem authBackendRead_scans_listing:
  assumes "Sys_ListAuth c s = (Inr auths, s')"
  shows "(\<forall>auth. map_of auths (d_Id d @ ''/'') = Some auth \<longrightarrow>
            authBackendRead c d s =
              (None,
               d\<lparr>attrs := (attrs d)
                   (''type'' \<mapsto> VString (Mount_Type auth),
                    ''path'' \<mapsto> VString (d_Id d @ ''/''),
                    ''description'' \<mapsto> VString (Mount_Description auth),
                    ''default_lease_ttl_seconds'' \<mapsto> VInt (Out_DefaultLeaseTTL (Mount_Config auth)),
                    ''max_lease_ttl_seconds'' \<mapsto> VInt (Out_MaxLeaseTTL (Mount_Config auth)),
                    ''listing_visibility'' \<mapsto> VString (Out_ListingVisibility (Mount_Config auth)),
                    ''local'' \<mapsto> VBool (Mount_Local auth),
                    ''accessor'' \<mapsto> VString (Mount_Accessor auth))\<rparr>,
               s'))
       \<and> (map_of auths (d_Id d @ ''/'') = None \<longrightarrow>
            authBackendRead c d s = (None, d\<lparr>ident := []\<rparr>, s'))"
  using assms
  by (simp add: authBackendRead_def authBackendRead_range_map_of authBackendRead_found_attrs
        d_SetId_def Let_def)

theorem authBackendRead_scans_listing_witness:
  "Sys_ListAuth client_present []
     = (Inr [(''token/'', token_mount), (''approle/'', approle_mount)], [''list''])
   \<and> fst (authBackendRead client_present \<lparr>ident = ''approle'', attrs = Map.empty\<rparr> []) = None
   \<and> ident (fst (snd (authBackendRead client_present \<lparr>ident = ''approle'', attrs = Map.empty\<rparr> [])))
       = ''approle''
   \<and> attrs (fst (snd (authBackendRead client_present \<lparr>ident = ''approle'', attrs = Map.empty\<rparr> [])))
       = [''type'' \<mapsto> VString ''approle'', ''path'' \<mapsto> VString ''approle/'',
          ''description'' \<mapsto> VString ''application roles'',
          ''default_lease_ttl_seconds'' \<mapsto> VInt 3600, ''max_lease_ttl_seconds'' \<mapsto> VInt 7200,
          ''listing_visibility'' \<mapsto> VString ''unauth'', ''local'' \<mapsto> VBool False,
          ''accessor'' \<mapsto> VString ''auth_approle_2'']
   \<and> authBackendRead client_present \<lparr>ident = ''ldap'', attrs = Map.empty\<rparr> []
       = (None, \<lparr>ident = [], attrs = Map.empty\<rparr>, [''list''])"
proof -
  have l: "Sys_ListAuth client_present []
     = (Inr [(''token/'', token_mount), (''approle/'', approle_mount)], [''list''])"
    by (simp add: client_present_def)
  from authBackendRead_scans_listing [OF l, of "\<lparr>ident = ''approle'', attrs = Map.empty\<rparr>"]
  have "authBackendRead client_present \<lparr>ident = ''approle'', attrs = Map.empty\<rparr> [] =
      (None,
       \<lparr>ident = ''approle'', attrs = Map.empty\<rparr>\<lparr>attrs :=
          [''type'' \<mapsto> VString (Mount_Type approle_mount),
           ''path'' \<mapsto> VString ''approle/'',
           ''description'' \<mapsto> VString (Mount_Description approle_mount),
           ''default_lease_ttl_seconds'' \<mapsto> VInt (Out_DefaultLeaseTTL (Mount_Config approle_mount)),
           ''max_lease_ttl_seconds'' \<mapsto> VInt (Out_MaxLeaseTTL (Mount_Config approle_mount)),
           ''listing_visibility'' \<mapsto> VString (Out_ListingVisibility (Mount_Config approle_mount)),
           ''local'' \<mapsto> VBool (Mount_Local approle_mount),
           ''accessor'' \<mapsto> VString (Mount_Accessor approle_mount)]\<rparr>,
       [''list''])"
    by (simp add: d_Id_def)
  moreover from authBackendRead_scans_listing [OF l, of "\<lparr>ident = ''ldap'', attrs = Map.empty\<rparr>"]
  have "authBackendRead client_present \<lparr>ident = ''ldap'', attrs = Map.empty\<rparr> []
       = (None, \<lparr>ident = [], attrs = Map.empty\<rparr>, [''list''])"
    by (simp add: d_Id_def)
  ultimately show ?thesis
    using l by (simp add: approle_mount_def)
qed

text \<open>
  Claim C10, as the code has it. For every string that \<^verbatim>\<open>json.Unmarshal\<close> rejects with an
  error, \<^verbatim>\<open>NormalizeGCPCredentials\<close> returns the empty string: it neither returns its input
  nor fails. The JSON value \<^verbatim>\<open>null\<close> is not rejected, although it is not an object: for it
  the function returns the text \<^verbatim>\<open>null\<close>, whatever the library does with objects.
\<close>

theorem NormalizeGCPCredentials_invalid:
  "(json_Unmarshal j x = Inl err \<longrightarrow> NormalizeGCPCredentials j (VString x) = Some [])
   \<and> (json_trim_space y = ''null'' \<longrightarrow>
        NormalizeGCPCredentials (encoding_json decode_object encode_object) (VString y)
          = Some ''null'')"
proof (intro conjI impI)
  assume "json_Unmarshal j x = Inl err"
  then show "NormalizeGCPCredentials j (VString x) = Some []"
    by (simp add: NormalizeGCPCredentials_def)
next
  assume "json_trim_space y = ''null''"
  then show "NormalizeGCPCredentials (encoding_json decode_object encode_object) (VString y)
          = Some ''null''"
    by (rule NormalizeGCPCredentials_encoding_json_null)
qed

theorem NormalizeGCPCredentials_invalid_witness:
  "json_Unmarshal json_empty_object ''{not json'' = Inl ''invalid character''
   \<and> NormalizeGCPCredentials json_empty_object (VString ''{not json'') = Some []
   \<and> json_trim_space '' null'' = ''null''
   \<and> NormalizeGCPCredentials json_empty_object (VString '' null'') = Some ''null''"
proof -
  have e: "json_Unmarshal json_empty_object ''{not json'' = Inl ''invalid character''"
    by (simp add: json_empty_object_def encoding_json_def json_trim_space_def json_space_def)
  have t: "json_trim_space '' null'' = ''null''"
    by (simp add: json_trim_space_def json_space_def)
  from NormalizeGCPCredentials_invalid [of json_empty_object "''{not json''" "''invalid character''"
      "'' null''" "\<lambda>s. if json_trim_space s = ''{}'' \<or> json_trim_space s = ''{ }'' then Inr ()
            else Inl ''invalid character''" "\<lambda>obj. Inr ''{}''"] e t
  show ?thesis
    by (simp add: json_empty_object_def)
qed

text \<open>
  The claim as stated fails at the input \<^verbatim>\<open>null\<close>, which is not a JSON object: the validator
  accepts it, and the normalizer returns \<^verbatim>\<open>null\<close>, not the empty string.
\<close>

theorem NormalizeGCPCredentials_null:
  "ValidateGCPCredentials json_empty_object (VString ''null'') ''credentials'' = Some ([], [])
   \<and> NormalizeGCPCredentials json_empty_object (VString ''null'') = Some ''null''
   \<and> ''null'' \<noteq> []"
  by (simp add: ValidateGCPCredentials_def NormalizeGCPCredentials_def json_empty_object_def
        encoding_json_def json_trim_space_def json_space_def)

end
